theory Spec2Isabelle
  imports Main "HOL-Library.AList"
begin

section \<open>tiny-cacher: a shallow embedding of the caching facade\<close>

text \<open>
  The development follows \<^verbatim>\<open>tiny-cacher.js\<close> (class \<^verbatim>\<open>TinyCacher\<close>).
  Conventions of the embedding:
  \<^item> JavaScript values are the datatype \<open>jsval\<close>; numbers are restricted to integers
    (\<open>JNum\<close>), so \<^verbatim>\<open>Math.floor\<close> is the identity on them and \<^verbatim>\<open>NaN\<close>,
    \<^verbatim>\<open>undefined\<close> and \<^verbatim>\<open>null\<close> arguments of numeric parameters are \<open>None\<close>.
  \<^item> A plain object is an association list of its own properties in creation order;
    \<open>own_keys\<close> gives the order in which \<^verbatim>\<open>for ... in\<close> and \<^verbatim>\<open>Object.keys\<close>
    enumerate them (array indices first, ascending, then the other strings in creation order).
    The objects among the values are the ones an object literal or \<^verbatim>\<open>JSON.parse\<close>
    builds: extensible, with the prototype \<^verbatim>\<open>Object.prototype\<close> and writable data
    properties only. The one accessor they inherit is \<^verbatim>\<open>__proto__\<close>; it matters where
    the code assigns a property whose name is a key of the caller (\<open>assign\<close>).
  \<^item> A \<^verbatim>\<open>Date\<close> is its time value in milliseconds (an \<open>int\<close>); \<^verbatim>\<open>new Date()\<close>
    is the parameter \<open>now\<close> of each operation. The two \<^verbatim>\<open>new Date()\<close> of
    \<^verbatim>\<open>push\<close> read the same instant, and \<^verbatim>\<open>setSeconds\<close> adds whole seconds
    (no clipping of the time value, no daylight-saving shift).
  \<^item> A promise is the outcome it settles to. The executor of \<^verbatim>\<open>new Promise\<close> runs
    synchronously, so every operation is a function from the state to an outcome and
    the new state; an exception thrown inside the executor rejects the promise.
  \<^item> MD5, \<^verbatim>\<open>JSON.stringify\<close>, \<^verbatim>\<open>JSON.parse\<close> and SQLite's arithmetic on a text
    column are parameters (record \<open>env\<close>).
  \<^item> The Redis, Memcached and file-system drivers are not modelled: an operation that
    reaches one of them has the outcome \<open>Delegated\<close>.
\<close>

subsection \<open>JavaScript values\<close>

datatype jsval =
    JUndefined
  | JNull
  | JBool bool
  | JNum int
  | JStr string
  | JArr "jsval list"
  | JObj "(string \<times> jsval) list"

type_synonym 'a obj = "(string \<times> 'a) list"

text \<open>\<^verbatim>\<open>typeof(v) === 'object'\<close>: true of \<^verbatim>\<open>null\<close>, arrays and objects.\<close>

fun typeof_object :: "jsval \<Rightarrow> bool" where
  "typeof_object JNull = True"
| "typeof_object (JArr _) = True"
| "typeof_object (JObj _) = True"
| "typeof_object _ = False"

text \<open>\<^verbatim>\<open>typeof(key) !== 'string' || key === ''\<close>, the test every operation starts with.\<close>

fun invalid_key :: "jsval \<Rightarrow> bool" where
  "invalid_key (JStr s) = (s = [])"
| "invalid_key _ = True"

text \<open>\<^verbatim>\<open>String.prototype.toLowerCase\<close> on the ASCII letters; other characters are kept.\<close>

definition lower_char :: "char \<Rightarrow> char" where
  "lower_char c =
     (case map_of (zip ''ABCDEFGHIJKLMNOPQRSTUVWXYZ'' ''abcdefghijklmnopqrstuvwxyz'') c of
        Some l \<Rightarrow> l
      | None \<Rightarrow> c)"

definition toLowerCase :: "string \<Rightarrow> string" where
  "toLowerCase s = map lower_char s"

subsection \<open>Objects: own properties and their enumeration order\<close>

definition obj_get :: "'a obj \<Rightarrow> string \<Rightarrow> 'a option" where
  "obj_get ob k = map_of ob k"

definition obj_set :: "string \<Rightarrow> 'a \<Rightarrow> 'a obj \<Rightarrow> 'a obj" where
  "obj_set k v ob = AList.update k v ob"

definition obj_delete :: "string \<Rightarrow> 'a obj \<Rightarrow> 'a obj" where
  "obj_delete k ob = AList.delete k ob"

definition digit_val :: "char \<Rightarrow> nat option" where
  "digit_val c = map_of (zip ''0123456789'' [0, 1, 2, 3, 4, 5, 6, 7, 8, 9]) c"

fun digits_val :: "nat \<Rightarrow> string \<Rightarrow> nat option" where
  "digits_val acc [] = Some acc"
| "digits_val acc (c # cs) =
     (case digit_val c of None \<Rightarrow> None | Some d \<Rightarrow> digits_val (10 * acc + d) cs)"

text \<open>
  An array index is a canonical numeric string (no sign, no leading zero) whose value
  is at most \<open>2^32 - 2\<close>.
\<close>

definition array_index :: "string \<Rightarrow> nat option" where
  "array_index s =
     (case s of
        [] \<Rightarrow> None
      | c # cs \<Rightarrow>
          if c = CHR ''0'' \<and> cs \<noteq> [] then None
          else (case digits_val 0 s of
                  None \<Rightarrow> None
                | Some n \<Rightarrow> if n \<le> 4294967294 then Some n else None))"

definition index_val :: "string \<Rightarrow> nat" where
  "index_val s = (case array_index s of None \<Rightarrow> 0 | Some n \<Rightarrow> n)"

definition own_keys :: "'a obj \<Rightarrow> string list" where
  "own_keys ob =
     (let ks = map fst ob
      in sort_key index_val (filter (\<lambda>k. array_index k \<noteq> None) ks)
         @ filter (\<lambda>k. array_index k = None) ks)"

text \<open>The index of an array element as a property name (\<^verbatim>\<open>for ... in\<close> over an array).\<close>

definition digit_char :: "nat \<Rightarrow> char" where
  "digit_char d = ''0123456789'' ! d"

fun decimal :: "nat \<Rightarrow> nat \<Rightarrow> string" where
  "decimal 0 n = []"
| "decimal (Suc fuel) n =
     (if n < 10 then [digit_char n] else decimal fuel (n div 10) @ [digit_char (n mod 10)])"

definition index_name :: "nat \<Rightarrow> string" where
  "index_name n = decimal (Suc n) n"

text \<open>
  The properties a \<^verbatim>\<open>for (let key in elements)\<close> visits, with their values, for a
  value that passed \<^verbatim>\<open>typeof(elements) === 'object' && elements !== null\<close>.
\<close>

fun for_in :: "jsval \<Rightarrow> (string \<times> jsval) list" where
  "for_in (JObj ps) =
     concat (map (\<lambda>k. case obj_get ps k of None \<Rightarrow> [] | Some v \<Rightarrow> [(k, v)]) (own_keys ps))"
| "for_in (JArr vs) = map (\<lambda>i. (index_name i, vs ! i)) [0 ..< length vs]"
| "for_in _ = []"

subsection \<open>Strategies and configuration\<close>

definition STRATEGY_INTERNAL :: int where "STRATEGY_INTERNAL = 1"
definition STRATEGY_LOCAL :: int where "STRATEGY_LOCAL = 1"
definition STRATEGY_SHARED :: int where "STRATEGY_SHARED = 2"
definition STRATEGY_REDIS :: int where "STRATEGY_REDIS = 4"
definition STRATEGY_MEMCACHED :: int where "STRATEGY_MEMCACHED = 5"
definition STRATEGY_SQLITE3 :: int where "STRATEGY_SQLITE3 = 6"
definition STRATEGY_FILE :: int where "STRATEGY_FILE = 7"

text \<open>One stored element of the local or shared storage: \<^verbatim>\<open>{value: ..., expire: ...}\<close>;
  \<open>expire\<close> is \<^verbatim>\<open>null\<close> (\<open>None\<close>) or a \<^verbatim>\<open>Date\<close>.\<close>

record entry =
  entry_value :: jsval
  entry_expire :: "int option"

type_synonym storage_t = "entry obj obj"

text \<open>
  The fields of a class instance. A field that is \<^verbatim>\<open>undefined\<close> until first set is
  an option. A connection field is \<open>True\<close> when it holds a connected client of its driver.
\<close>

record cacher =
  strategy :: jsval
  namespace :: "string option"
  namaspaceHash :: "string option"
  defaultTTL :: "int option"
  storage :: "storage_t option"
  garbageCollectorInterval :: "nat option"
  redisConnection :: bool
  memcachedConnection :: bool
  sqliteConnection :: bool
  storagePath :: "string option"

definition setStrategy :: "jsval \<Rightarrow> cacher \<Rightarrow> cacher" where
  "setStrategy strat C =
     (let sw = (case strat of JStr s \<Rightarrow> JStr (toLowerCase s) | v \<Rightarrow> v);
          res =
            (if sw = JNum STRATEGY_SHARED \<or> sw = JStr ''shared'' then STRATEGY_SHARED
             else if sw = JNum STRATEGY_REDIS \<or> sw = JStr ''redis'' then STRATEGY_REDIS
             else if sw = JNum STRATEGY_MEMCACHED \<or> sw = JStr ''memcached''
               then STRATEGY_MEMCACHED
             else if sw = JNum STRATEGY_SQLITE3 \<or> sw = JStr ''sqlite'' \<or> sw = JStr ''sqlite3''
               then STRATEGY_SQLITE3
             else if sw = JNum STRATEGY_FILE \<or> sw = JStr ''file'' then STRATEGY_FILE
             else STRATEGY_INTERNAL)
      in C\<lparr>strategy := JNum res\<rparr>)"

definition getStrategy :: "cacher \<Rightarrow> int" where
  "getStrategy C =
     (case strategy C of
        JNum n \<Rightarrow> if n \<noteq> 3 \<and> n > 0 \<and> n \<le> 7 then n else 1
      | _ \<Rightarrow> 1)"

text \<open>\<^verbatim>\<open>new TinyCacher(strategy)\<close>: every field is unset, then \<^verbatim>\<open>setStrategy\<close> runs.\<close>

definition blank :: cacher where
  "blank = \<lparr>strategy = JUndefined, namespace = None, namaspaceHash = None,
            defaultTTL = None, storage = None, garbageCollectorInterval = None,
            redisConnection = False, memcachedConnection = False,
            sqliteConnection = False, storagePath = None\<rparr>"

definition constructor :: "jsval \<Rightarrow> cacher" where
  "constructor strat = setStrategy strat blank"

subsection \<open>The environment, the module-level state and outcomes\<close>

text \<open>
  What the class takes from its platform: \<^verbatim>\<open>crypto.createHash('md5')\<close> as a hex
  digest, \<^verbatim>\<open>JSON.stringify\<close> and \<^verbatim>\<open>JSON.parse\<close> (\<open>None\<close> when they throw), and
  the value SQLite computes for \<^verbatim>\<open>value + ?\<close> on the text column.
\<close>

record env =
  md5 :: "string \<Rightarrow> string"
  stringify :: "jsval \<Rightarrow> string option"
  parse :: "string \<Rightarrow> jsval option"
  sql_add :: "string \<Rightarrow> int \<Rightarrow> string"

text \<open>A row of \<^verbatim>\<open>cache_storage\<close>; the \<^verbatim>\<open>DATETIME\<close> columns hold whole seconds and
  \<open>None\<close> is \<^verbatim>\<open>NULL\<close>.\<close>

record row =
  row_namespace :: string
  row_key :: "string option"
  row_value :: string
  row_numeric :: int
  row_date :: int
  row_expire :: "int option"

text \<open>
  The state outside the instance: the module-level variables \<^verbatim>\<open>staticStorage\<close> and
  \<^verbatim>\<open>garbageCollectorInterval\<close> (here \<open>globalInterval\<close>), the intervals the runtime
  keeps alive, and the table of the connected SQLite database.
\<close>

record world =
  staticStorage :: storage_t
  globalInterval :: "nat option"
  timers :: "nat list"
  timer_count :: nat
  cache_storage :: "row list"

datatype error =
    InvalidKey            \<comment> \<open>\<^verbatim>\<open>'Invalid key.'\<close>\<close>
  | EmptyKey              \<comment> \<open>\<^verbatim>\<open>'Key cannot be an empty string.'\<close>\<close>
  | InitError             \<comment> \<open>\<^verbatim>\<open>'An error occurred while initialising the storage.'\<close>\<close>
  | KeyExists             \<comment> \<open>\<^verbatim>\<open>'This key already exists.'\<close>\<close>
  | NoSuchElement         \<comment> \<open>\<^verbatim>\<open>'No such element found.'\<close>\<close>
  | ElementExpired        \<comment> \<open>\<^verbatim>\<open>'Element has expired.'\<close>\<close>
  | MalformedElement      \<comment> \<open>\<^verbatim>\<open>'Malformed element.'\<close>\<close>
  | SerialiseError        \<comment> \<open>\<^verbatim>\<open>'Unable to serialise the given value as JSON string.'\<close>\<close>
  | ParseError            \<comment> \<open>\<^verbatim>\<open>'An error occurred while parsing the serialised data.'\<close>\<close>
  | InvalidElements       \<comment> \<open>\<^verbatim>\<open>'Invalid elements.'\<close>\<close>
  | InvalidKeys           \<comment> \<open>\<^verbatim>\<open>'Invalid keys.'\<close>\<close>
  | InvalidKeyFound       \<comment> \<open>\<^verbatim>\<open>'Invalid key found.'\<close>\<close>
  | TypeError             \<comment> \<open>thrown by reading a property of \<^verbatim>\<open>undefined\<close>\<close>
  | ReferenceError        \<comment> \<open>thrown by reading an undeclared variable\<close>

datatype outcome =
    Resolved jsval
  | Rejected error
  | Delegated             \<comment> \<open>settled by a driver callback outside the model\<close>

type_synonym result = "outcome \<times> world \<times> cacher"

subsection \<open>Timers\<close>

definition setInterval :: "world \<Rightarrow> nat \<times> world" where
  "setInterval W =
     (let h = timer_count W in (h, W\<lparr>timers := h # timers W, timer_count := Suc h\<rparr>))"

definition clearInterval :: "nat \<Rightarrow> world \<Rightarrow> world" where
  "clearInterval h W = W\<lparr>timers := removeAll h (timers W)\<rparr>"

subsection \<open>Configuration and key derivation\<close>

definition setDefaultTTL :: "int option \<Rightarrow> cacher \<Rightarrow> cacher" where
  "setDefaultTTL ttl C =
     (case ttl of
        None \<Rightarrow> C\<lparr>defaultTTL := Some 0\<rparr>
      | Some t \<Rightarrow> C\<lparr>defaultTTL := Some (if t \<le> 0 then 0 else t)\<rparr>)"

definition getDefaultTTL :: "cacher \<Rightarrow> int" where
  "getDefaultTTL C =
     (case defaultTTL C of None \<Rightarrow> 0 | Some t \<Rightarrow> if t \<le> 0 then 0 else t)"

definition namespace_hash :: "env \<Rightarrow> string \<Rightarrow> string" where
  "namespace_hash E ns = (if ns = [] then ''*'' else md5 E ns)"

definition setNamespace :: "env \<Rightarrow> jsval \<Rightarrow> cacher \<Rightarrow> cacher" where
  "setNamespace E ns C =
     (let n = (case ns of JStr s \<Rightarrow> s | _ \<Rightarrow> [])
      in if namespace C = None \<or> namespace C \<noteq> Some n
         then C\<lparr>namaspaceHash := Some (namespace_hash E n), namespace := Some n\<rparr>
         else C)"

definition getNamespace :: "cacher \<Rightarrow> string" where
  "getNamespace C = (case namespace C of Some s \<Rightarrow> s | None \<Rightarrow> [])"

text \<open>The object \<^verbatim>\<open>createKey\<close> returns: \<^verbatim>\<open>{namespace, key, merged}\<close>.\<close>

record derived_key =
  key_namespace :: string
  key_key :: "string option"
  key_merged :: "string option"

definition createKey :: "env \<Rightarrow> jsval \<Rightarrow> cacher \<Rightarrow> derived_key \<times> cacher" where
  "createKey E key C =
     (let C1 = (case namaspaceHash C of
                  Some (c # cs) \<Rightarrow> C
                | _ \<Rightarrow> C\<lparr>namaspaceHash := Some (namespace_hash E (getNamespace C))\<rparr>);
          n = (case namaspaceHash C1 of Some h \<Rightarrow> h | None \<Rightarrow> []);
          k = (case key of JStr (c # cs) \<Rightarrow> Some (md5 E (c # cs)) | _ \<Rightarrow> None)
      in (\<lparr>key_namespace = n, key_key = k,
           key_merged = (case k of
                           Some h \<Rightarrow> Some (''tiny-cacher:'' @ n @ '':'' @ h)
                         | None \<Rightarrow> None)\<rparr>, C1))"

text \<open>The same derivation in closed form: the hash of the namespace an operation works
  with (the remembered one when it is a non-empty string), and the key object it yields.\<close>

definition ns_hash :: "env \<Rightarrow> cacher \<Rightarrow> string" where
  "ns_hash E C =
     (case namaspaceHash C of
        Some (c # cs) \<Rightarrow> c # cs
      | _ \<Rightarrow> namespace_hash E (getNamespace C))"

definition derive :: "env \<Rightarrow> jsval \<Rightarrow> string \<Rightarrow> derived_key" where
  "derive E key n =
     (let k = (case key of JStr (c # cs) \<Rightarrow> Some (md5 E (c # cs)) | _ \<Rightarrow> None)
      in \<lparr>key_namespace = n, key_key = k,
          key_merged = (case k of
                          Some h \<Rightarrow> Some (''tiny-cacher:'' @ n @ '':'' @ h)
                        | None \<Rightarrow> None)\<rparr>)"

text \<open>\<^verbatim>\<open>key.key\<close> used as a property name (\<^verbatim>\<open>null\<close> would become \<^verbatim>\<open>"null"\<close>).\<close>

definition prop_name :: "string option \<Rightarrow> string" where
  "prop_name k = (case k of Some s \<Rightarrow> s | None \<Rightarrow> ''null'')"

text \<open>\<^verbatim>\<open>init\<close>: \<open>None\<close> when it throws. The module-level \<^verbatim>\<open>staticStorage\<close> is always
  an object, so the shared case changes nothing.\<close>

definition init :: "cacher \<Rightarrow> cacher option" where
  "init C =
     (let s = getStrategy C in
      if s = STRATEGY_SHARED then Some C
      else if s = STRATEGY_REDIS then (if redisConnection C then Some C else None)
      else if s = STRATEGY_MEMCACHED then (if memcachedConnection C then Some C else None)
      else if s = STRATEGY_SQLITE3 then (if sqliteConnection C then Some C else None)
      else if s = STRATEGY_FILE then
        (case storagePath C of Some (c # cs) \<Rightarrow> Some C | _ \<Rightarrow> None)
      else (case storage C of None \<Rightarrow> Some (C\<lparr>storage := Some []\<rparr>) | Some st \<Rightarrow> Some C))"

subsection \<open>The local and the shared storage\<close>

text \<open>
  The \<^verbatim>\<open>STRATEGY_SHARED\<close> case and the \<^verbatim>\<open>default\<close> case of every operation are the
  same statements, on \<^verbatim>\<open>staticStorage\<close> and on \<^verbatim>\<open>this.storage\<close>; each pair is one
  function of the storage object here. The property names of the storage objects are
  the digests of \<open>createKey\<close> (or \<^verbatim>\<open>*\<close>), never a key of the caller, so an
  assignment there creates or updates an own property (\<open>obj_set\<close>).

  The expressions on \<^verbatim>\<open>expire\<close>, as JavaScript evaluates them:
  \<^item> \<^verbatim>\<open>typeof(expire)\<close> is \<^verbatim>\<open>'object'\<close> for \<^verbatim>\<open>null\<close> and for a \<^verbatim>\<open>Date\<close>;
  \<^item> \<^verbatim>\<open>!expire instanceof Date\<close> is \<^verbatim>\<open>(!expire) instanceof Date\<close>: a boolean is
    never an instance of \<^verbatim>\<open>Date\<close>;
  \<^item> in a comparison with a \<^verbatim>\<open>Date\<close>, \<^verbatim>\<open>null\<close> is the number 0.
\<close>

definition typeof_expire :: "int option \<Rightarrow> string" where
  "typeof_expire x = ''object''"

definition not_instanceof_Date :: "int option \<Rightarrow> bool" where
  "not_instanceof_Date x = False"

definition to_number :: "int option \<Rightarrow> int" where
  "to_number x = (case x of None \<Rightarrow> 0 | Some t \<Rightarrow> t)"

definition exists_check :: "int \<Rightarrow> entry \<Rightarrow> bool" where
  "exists_check currentDate e =
     (typeof_expire (entry_expire e) \<noteq> ''object''
      \<or> not_instanceof_Date (entry_expire e)
      \<or> to_number (entry_expire e) \<ge> currentDate)"

definition storage_push ::
  "int \<Rightarrow> derived_key \<Rightarrow> jsval \<Rightarrow> bool \<Rightarrow> int option \<Rightarrow> storage_t \<Rightarrow> error + storage_t" where
  "storage_push currentDate key v overwrite expire st =
     (let e = \<lparr>entry_value = v, entry_expire = expire\<rparr>; k = prop_name (key_key key) in
      case obj_get st (key_namespace key) of
        None \<Rightarrow> Inr (obj_set (key_namespace key) (obj_set k e []) st)
      | Some ns \<Rightarrow>
          (case obj_get ns k of
             None \<Rightarrow> Inr (obj_set (key_namespace key) (obj_set k e ns) st)
           | Some old \<Rightarrow>
               if \<not> overwrite \<and> exists_check currentDate old then Inl KeyExists
               else Inr (obj_set (key_namespace key) (obj_set k e ns) st)))"

definition not_found :: "bool \<Rightarrow> error \<Rightarrow> outcome" where
  "not_found quiet err = (if quiet then Resolved JNull else Rejected err)"

definition storage_pull ::
  "int \<Rightarrow> derived_key \<Rightarrow> bool \<Rightarrow> storage_t \<Rightarrow> outcome \<times> storage_t" where
  "storage_pull currentDate key quiet st =
     (let k = prop_name (key_key key) in
      case obj_get st (key_namespace key) of
        None \<Rightarrow> (Rejected TypeError, st)
      | Some ns \<Rightarrow>
          (case obj_get ns k of
             None \<Rightarrow> (not_found quiet NoSuchElement, st)
           | Some e \<Rightarrow>
               if entry_value e = JUndefined then (not_found quiet NoSuchElement, st)
               else if typeof_expire (entry_expire e) = ''undefined''
                       \<or> (not_instanceof_Date (entry_expire e) \<and> entry_expire e \<noteq> None)
               then (if entry_expire e \<noteq> None \<and> to_number (entry_expire e) < currentDate
                     then (not_found quiet ElementExpired,
                           obj_set (key_namespace key) (obj_delete k ns) st)
                     else (not_found quiet MalformedElement, st))
               else (Resolved (entry_value e), st)))"

text \<open>In \<^verbatim>\<open>has\<close> the inner test reads \<^verbatim>\<open>currentDate\<close>, which \<^verbatim>\<open>has\<close> never declares.\<close>

definition storage_has :: "derived_key \<Rightarrow> storage_t \<Rightarrow> outcome \<times> storage_t" where
  "storage_has key st =
     (let k = prop_name (key_key key) in
      case obj_get st (key_namespace key) of
        None \<Rightarrow> (Rejected TypeError, st)
      | Some ns \<Rightarrow>
          (case obj_get ns k of
             None \<Rightarrow> (Resolved (JBool False), st)
           | Some e \<Rightarrow>
               if entry_value e = JUndefined then (Resolved (JBool False), st)
               else if typeof_expire (entry_expire e) = ''undefined''
                       \<or> (not_instanceof_Date (entry_expire e) \<and> entry_expire e \<noteq> None)
               then (if entry_expire e \<noteq> None then (Rejected ReferenceError, st)
                     else (Resolved (JBool False), st))
               else (Resolved (JBool True), st)))"

definition storage_remove :: "derived_key \<Rightarrow> storage_t \<Rightarrow> outcome \<times> storage_t" where
  "storage_remove key st =
     (let k = prop_name (key_key key) in
      case obj_get st (key_namespace key) of
        None \<Rightarrow> (Rejected TypeError, st)
      | Some ns \<Rightarrow>
          (case obj_get ns k of
             None \<Rightarrow> (Resolved JUndefined, st)
           | Some e \<Rightarrow> (Resolved JUndefined, obj_set (key_namespace key) (obj_delete k ns) st)))"

definition storage_increment :: "derived_key \<Rightarrow> int \<Rightarrow> storage_t \<Rightarrow> storage_t" where
  "storage_increment key delta st =
     (let k = prop_name (key_key key) in
      case obj_get st (key_namespace key) of
        None \<Rightarrow> st
      | Some ns \<Rightarrow>
          (case obj_get ns k of
             None \<Rightarrow> st
           | Some e \<Rightarrow>
               (case entry_value e of
                  JNum n \<Rightarrow>
                    obj_set (key_namespace key)
                      (obj_set k (e\<lparr>entry_value := JNum (n + delta)\<rparr>) ns) st
                | _ \<Rightarrow> st)))"

subsection \<open>The SQLite table\<close>

text \<open>
  The statements the class sends, evaluated as SQL does: a comparison with \<^verbatim>\<open>NULL\<close>
  is \<^verbatim>\<open>NULL\<close> (\<open>None\<close>), \<^verbatim>\<open>AND\<close> and \<^verbatim>\<open>OR\<close> are three-valued, and a
  \<^verbatim>\<open>WHERE\<close> clause keeps a row only when it is true. Both \<^verbatim>\<open>DATETIME("now")\<close> and
  the stored \<^verbatim>\<open>expire\<close> text are UTC with whole seconds, so their order as text is
  the order of the seconds. The database itself never fails, apart from the
  primary-key constraint.
\<close>

definition sql_eq :: "'a option \<Rightarrow> 'a option \<Rightarrow> bool option" where
  "sql_eq a b = (case a of None \<Rightarrow> None
                 | Some x \<Rightarrow> (case b of None \<Rightarrow> None | Some y \<Rightarrow> Some (x = y)))"

definition sql_ge :: "int option \<Rightarrow> int option \<Rightarrow> bool option" where
  "sql_ge a b = (case a of None \<Rightarrow> None
                 | Some x \<Rightarrow> (case b of None \<Rightarrow> None | Some y \<Rightarrow> Some (x \<ge> y)))"

definition sql_lt :: "int option \<Rightarrow> int option \<Rightarrow> bool option" where
  "sql_lt a b = (case a of None \<Rightarrow> None
                 | Some x \<Rightarrow> (case b of None \<Rightarrow> None | Some y \<Rightarrow> Some (x < y)))"

definition sql_or :: "bool option \<Rightarrow> bool option \<Rightarrow> bool option" where
  "sql_or a b =
     (if a = Some True \<or> b = Some True then Some True
      else if a = Some False \<and> b = Some False then Some False else None)"

definition sql_and :: "bool option \<Rightarrow> bool option \<Rightarrow> bool option" where
  "sql_and a b =
     (if a = Some False \<or> b = Some False then Some False
      else if a = Some True \<and> b = Some True then Some True else None)"

definition sql_true :: "bool option \<Rightarrow> bool" where
  "sql_true c = (c = Some True)"

definition DATETIME_now :: "int \<Rightarrow> int option" where
  "DATETIME_now now = Some (now div 1000)"

text \<open>\<^verbatim>\<open>namespace = ? AND key = ?\<close>\<close>

definition where_key :: "derived_key \<Rightarrow> row \<Rightarrow> bool option" where
  "where_key key r =
     sql_and (sql_eq (Some (row_namespace r)) (Some (key_namespace key)))
             (sql_eq (row_key r) (key_key key))"

text \<open>\<^verbatim>\<open>namespace = ? AND key = ? AND ( expire = NULL OR expire >= DATETIME("now") )\<close>\<close>

definition where_select :: "int \<Rightarrow> derived_key \<Rightarrow> row \<Rightarrow> bool option" where
  "where_select now key r =
     sql_and (sql_eq (Some (row_namespace r)) (Some (key_namespace key)))
       (sql_and (sql_eq (row_key r) (key_key key))
          (sql_or (sql_eq (row_expire r) None)
                  (sql_ge (row_expire r) (DATETIME_now now))))"

text \<open>\<^verbatim>\<open>SELECT ... LIMIT 1\<close>: the first row the clause keeps.\<close>

definition sql_select :: "int \<Rightarrow> derived_key \<Rightarrow> row list \<Rightarrow> row option" where
  "sql_select now key tbl = find (\<lambda>r. sql_true (where_select now key r)) tbl"

definition same_primary_key :: "row \<Rightarrow> row \<Rightarrow> bool" where
  "same_primary_key r r' =
     sql_true (sql_and (sql_eq (Some (row_namespace r)) (Some (row_namespace r')))
                       (sql_eq (row_key r) (row_key r')))"

text \<open>\<^verbatim>\<open>INSERT\<close>: \<open>None\<close> is the error \<^verbatim>\<open>SQLITE_CONSTRAINT\<close>.\<close>

definition sql_insert :: "row \<Rightarrow> row list \<Rightarrow> row list option" where
  "sql_insert r tbl = (if list_ex (same_primary_key r) tbl then None else Some (tbl @ [r]))"

definition sql_insert_or_replace :: "row \<Rightarrow> row list \<Rightarrow> row list" where
  "sql_insert_or_replace r tbl = filter (\<lambda>r'. \<not> same_primary_key r r') tbl @ [r]"

definition sqlite_push ::
  "env \<Rightarrow> int \<Rightarrow> derived_key \<Rightarrow> jsval \<Rightarrow> bool \<Rightarrow> int option \<Rightarrow> row list \<Rightarrow> error + row list" where
  "sqlite_push E now key v overwrite expire tbl =
     (let numeric = (case v of JNum n \<Rightarrow> 1 | _ \<Rightarrow> 0) in
      case stringify E v of
        None \<Rightarrow> Inl SerialiseError
      | Some s \<Rightarrow>
          (let r = \<lparr>row_namespace = key_namespace key, row_key = key_key key,
                    row_value = s, row_numeric = numeric, row_date = now div 1000,
                    row_expire = map_option (\<lambda>t. t div 1000) expire\<rparr>
           in if overwrite then Inr (sql_insert_or_replace r tbl)
              else (case sql_insert r tbl of None \<Rightarrow> Inl KeyExists | Some tbl' \<Rightarrow> Inr tbl')))"

definition sqlite_pull :: "env \<Rightarrow> int \<Rightarrow> derived_key \<Rightarrow> bool \<Rightarrow> row list \<Rightarrow> outcome" where
  "sqlite_pull E now key quiet tbl =
     (case sql_select now key tbl of
        None \<Rightarrow> not_found quiet NoSuchElement
      | Some element \<Rightarrow>
          (case parse E (row_value element) of
             None \<Rightarrow> Rejected ParseError
           | Some v \<Rightarrow> Resolved v))"

definition sqlite_has :: "int \<Rightarrow> derived_key \<Rightarrow> row list \<Rightarrow> outcome" where
  "sqlite_has now key tbl =
     (case sql_select now key tbl of
        None \<Rightarrow> Resolved (JBool False)
      | Some element \<Rightarrow> Resolved (JBool True))"

text \<open>\<^verbatim>\<open>DELETE FROM cache_storage WHERE namespace = ? AND key = ?\<close>\<close>

definition sqlite_remove :: "derived_key \<Rightarrow> row list \<Rightarrow> row list" where
  "sqlite_remove key tbl = filter (\<lambda>r. \<not> sql_true (where_key key r)) tbl"

text \<open>\<^verbatim>\<open>UPDATE cache_storage SET value = value + ? WHERE namespace = ? AND key = ? AND numeric = 1\<close>\<close>

definition sqlite_increment :: "env \<Rightarrow> derived_key \<Rightarrow> int \<Rightarrow> row list \<Rightarrow> row list" where
  "sqlite_increment E key delta tbl =
     map (\<lambda>r. if sql_true (sql_and (where_key key r) (sql_eq (Some (row_numeric r)) (Some 1)))
               then r\<lparr>row_value := sql_add E (row_value r) delta\<rparr> else r) tbl"

text \<open>\<^verbatim>\<open>DELETE FROM cache_storage WHERE expire < DATETIME("now")\<close>\<close>

definition runSQLite3GarbageCollector :: "int \<Rightarrow> world \<Rightarrow> cacher \<Rightarrow> result" where
  "runSQLite3GarbageCollector now W C =
     (case init C of
        None \<Rightarrow> (Rejected InitError, W, C)
      | Some C1 \<Rightarrow>
          (Resolved JUndefined,
           W\<lparr>cache_storage :=
                filter (\<lambda>r. \<not> sql_true (sql_lt (row_expire r) (DATETIME_now now)))
                       (cache_storage W)\<rparr>, C1))"

subsection \<open>Single-key operations\<close>

definition push ::
  "env \<Rightarrow> int \<Rightarrow> jsval \<Rightarrow> jsval \<Rightarrow> bool \<Rightarrow> int option \<Rightarrow> world \<Rightarrow> cacher \<Rightarrow> result" where
  "push E now key v overwrite ttl W C =
     (if invalid_key key then (Rejected InvalidKey, W, C)
      else
        let t = (case ttl of Some t \<Rightarrow> t | None \<Rightarrow> getDefaultTTL C);
            expire = (if t \<le> 0 then None else Some (now + t * 1000));
            (k, C1) = createKey E key C
        in case init C1 of
             None \<Rightarrow> (Rejected InitError, W, C1)
           | Some C2 \<Rightarrow>
               let s = getStrategy C2 in
               if s = STRATEGY_SHARED then
                 (case storage_push now k v overwrite expire (staticStorage W) of
                    Inl err \<Rightarrow> (Rejected err, W, C2)
                  | Inr st \<Rightarrow> (Resolved JUndefined, W\<lparr>staticStorage := st\<rparr>, C2))
               else if s = STRATEGY_REDIS then
                 (case stringify E v of
                    None \<Rightarrow> (Rejected SerialiseError, W, C2)
                  | Some j \<Rightarrow> (Delegated, W, C2))
               else if s = STRATEGY_MEMCACHED then (Delegated, W, C2)
               else if s = STRATEGY_SQLITE3 then
                 (case sqlite_push E now k v overwrite expire (cache_storage W) of
                    Inl err \<Rightarrow> (Rejected err, W, C2)
                  | Inr tbl \<Rightarrow> (Resolved JUndefined, W\<lparr>cache_storage := tbl\<rparr>, C2))
               else if s = STRATEGY_FILE then
                 (case stringify E v of
                    None \<Rightarrow> (Rejected SerialiseError, W, C2)
                  | Some j \<Rightarrow> (Delegated, W, C2))
               else
                 (case storage C2 of
                    None \<Rightarrow> (Rejected TypeError, W, C2)
                  | Some st \<Rightarrow>
                      (case storage_push now k v overwrite expire st of
                         Inl err \<Rightarrow> (Rejected err, W, C2)
                       | Inr st' \<Rightarrow> (Resolved JUndefined, W, C2\<lparr>storage := Some st'\<rparr>))))"

definition pull :: "env \<Rightarrow> int \<Rightarrow> jsval \<Rightarrow> bool \<Rightarrow> world \<Rightarrow> cacher \<Rightarrow> result" where
  "pull E now key quiet W C =
     (if invalid_key key then (Rejected EmptyKey, W, C)
      else
        let (k, C1) = createKey E key C
        in case init C1 of
             None \<Rightarrow> (Rejected InitError, W, C1)
           | Some C2 \<Rightarrow>
               let s = getStrategy C2 in
               if s = STRATEGY_SHARED then
                 (case storage_pull now k quiet (staticStorage W) of
                    (r, st) \<Rightarrow> (r, W\<lparr>staticStorage := st\<rparr>, C2))
               else if s = STRATEGY_REDIS then (Delegated, W, C2)
               else if s = STRATEGY_MEMCACHED then (Delegated, W, C2)
               else if s = STRATEGY_SQLITE3 then
                 (sqlite_pull E now k quiet (cache_storage W), W, C2)
               else if s = STRATEGY_FILE then (Delegated, W, C2)
               else
                 (case storage C2 of
                    None \<Rightarrow> (Rejected TypeError, W, C2)
                  | Some st \<Rightarrow>
                      (case storage_pull now k quiet st of
                         (r, st') \<Rightarrow> (r, W, C2\<lparr>storage := Some st'\<rparr>))))"

definition has :: "env \<Rightarrow> int \<Rightarrow> jsval \<Rightarrow> world \<Rightarrow> cacher \<Rightarrow> result" where
  "has E now key W C =
     (if invalid_key key then (Rejected EmptyKey, W, C)
      else
        let (k, C1) = createKey E key C
        in case init C1 of
             None \<Rightarrow> (Rejected InitError, W, C1)
           | Some C2 \<Rightarrow>
               let s = getStrategy C2 in
               if s = STRATEGY_SHARED then
                 (case storage_has k (staticStorage W) of
                    (r, st) \<Rightarrow> (r, W\<lparr>staticStorage := st\<rparr>, C2))
               else if s = STRATEGY_REDIS then (Delegated, W, C2)
               else if s = STRATEGY_MEMCACHED then (Delegated, W, C2)
               else if s = STRATEGY_SQLITE3 then
                 (sqlite_has now k (cache_storage W), W, C2)
               else if s = STRATEGY_FILE then (Delegated, W, C2)
               else
                 (case storage C2 of
                    None \<Rightarrow> (Rejected TypeError, W, C2)
                  | Some st \<Rightarrow>
                      (case storage_has k st of
                         (r, st') \<Rightarrow> (r, W, C2\<lparr>storage := Some st'\<rparr>))))"

definition remove :: "env \<Rightarrow> jsval \<Rightarrow> world \<Rightarrow> cacher \<Rightarrow> result" where
  "remove E key W C =
     (if invalid_key key then (Rejected EmptyKey, W, C)
      else
        let (k, C1) = createKey E key C
        in case init C1 of
             None \<Rightarrow> (Rejected InitError, W, C1)
           | Some C2 \<Rightarrow>
               let s = getStrategy C2 in
               if s = STRATEGY_SHARED then
                 (case storage_remove k (staticStorage W) of
                    (r, st) \<Rightarrow> (r, W\<lparr>staticStorage := st\<rparr>, C2))
               else if s = STRATEGY_REDIS then (Delegated, W, C2)
               else if s = STRATEGY_MEMCACHED then (Delegated, W, C2)
               else if s = STRATEGY_SQLITE3 then
                 (Resolved JUndefined,
                  W\<lparr>cache_storage := sqlite_remove k (cache_storage W)\<rparr>, C2)
               else if s = STRATEGY_FILE then (Delegated, W, C2)
               else
                 (case storage C2 of
                    None \<Rightarrow> (Rejected TypeError, W, C2)
                  | Some st \<Rightarrow>
                      (case storage_remove k st of
                         (r, st') \<Rightarrow> (r, W, C2\<lparr>storage := Some st'\<rparr>))))"

text \<open>\<^verbatim>\<open>increment\<close>: the delta defaults to 1, and a delta of 0 resolves at once. On the
  file strategy it resolves without touching anything.\<close>

definition increment :: "env \<Rightarrow> jsval \<Rightarrow> int option \<Rightarrow> world \<Rightarrow> cacher \<Rightarrow> result" where
  "increment E key delta W C =
     (if invalid_key key then (Rejected EmptyKey, W, C)
      else
        let d = (case delta of None \<Rightarrow> 1 | Some d \<Rightarrow> d) in
        if d = 0 then (Resolved JUndefined, W, C)
        else
          let (k, C1) = createKey E key C
          in case init C1 of
               None \<Rightarrow> (Rejected InitError, W, C1)
             | Some C2 \<Rightarrow>
                 let s = getStrategy C2 in
                 if s = STRATEGY_SHARED then
                   (Resolved JUndefined,
                    W\<lparr>staticStorage := storage_increment k d (staticStorage W)\<rparr>, C2)
                 else if s = STRATEGY_REDIS then (Delegated, W, C2)
                 else if s = STRATEGY_MEMCACHED then (Delegated, W, C2)
                 else if s = STRATEGY_SQLITE3 then
                   (Resolved JUndefined,
                    W\<lparr>cache_storage := sqlite_increment E k d (cache_storage W)\<rparr>, C2)
                 else if s = STRATEGY_FILE then (Resolved JUndefined, W, C2)
                 else
                   (case storage C2 of
                      None \<Rightarrow> (Rejected TypeError, W, C2)
                    | Some st \<Rightarrow>
                        (Resolved JUndefined, W,
                         C2\<lparr>storage := Some (storage_increment k d st)\<rparr>)))"

definition decrement :: "env \<Rightarrow> jsval \<Rightarrow> int option \<Rightarrow> world \<Rightarrow> cacher \<Rightarrow> result" where
  "decrement E key delta W C =
     increment E key (Some (case delta of None \<Rightarrow> - 1 | Some d \<Rightarrow> - d)) W C"

subsection \<open>Multi-key operations\<close>

text \<open>
  Each multi-key operation creates one promise per key, in input order, and joins them
  with \<^verbatim>\<open>Promise.all\<close>. Creating a promise runs its operation, so \<open>run_all\<close>
  threads the state through every key whatever the earlier outcomes were;
  \<open>promise_all\<close> gives the values in input order, or the first rejection.
\<close>

fun run_all ::
  "('k \<Rightarrow> world \<Rightarrow> cacher \<Rightarrow> result) \<Rightarrow> 'k list \<Rightarrow> world \<Rightarrow> cacher
     \<Rightarrow> outcome list \<times> world \<times> cacher" where
  "run_all f [] W C = ([], W, C)"
| "run_all f (k # ks) W C =
     (case f k W C of
        (r, W1, C1) \<Rightarrow>
          (case run_all f ks W1 C1 of (rs, W2, C2) \<Rightarrow> (r # rs, W2, C2)))"

datatype all_outcome =
    AllResolved "jsval list"
  | AllRejected error
  | AllPending

fun promise_all :: "outcome list \<Rightarrow> all_outcome" where
  "promise_all [] = AllResolved []"
| "promise_all (Rejected e # rs) = AllRejected e"
| "promise_all (Resolved v # rs) =
     (case promise_all rs of AllResolved vs \<Rightarrow> AllResolved (v # vs) | other \<Rightarrow> other)"
| "promise_all (Delegated # rs) =
     (case promise_all rs of AllRejected e \<Rightarrow> AllRejected e | _ \<Rightarrow> AllPending)"

text \<open>\<^verbatim>\<open>keys[i]\<close> as a property name; only validated keys (strings) reach it.\<close>

fun key_name :: "jsval \<Rightarrow> string" where
  "key_name (JStr s) = s"
| "key_name _ = []"

text \<open>
  The assignment \<^verbatim>\<open>data[k] = v\<close> on the object the result is built in, which starts as
  \<^verbatim>\<open>{}\<close>. Every name creates or updates an own property, but \<^verbatim>\<open>__proto__\<close>: as long
  as that name reaches the accessor inherited from \<^verbatim>\<open>Object.prototype\<close>, the assignment
  adds no own property. It replaces the prototype of the object when the value is an
  object or \<^verbatim>\<open>null\<close>, and does nothing for any other value. After the prototype has
  become \<^verbatim>\<open>null\<close>, or an object that has an own property \<^verbatim>\<open>__proto__\<close>, the
  accessor is out of reach and the name is assigned like any other. The object under
  construction is a pair: whether the accessor is in reach, and the own properties.
\<close>

definition has_own_proto :: "jsval \<Rightarrow> bool" where
  "has_own_proto v = (case v of JObj ps \<Rightarrow> obj_get ps ''__proto__'' \<noteq> None | _ \<Rightarrow> False)"

definition assign :: "string \<Rightarrow> jsval \<Rightarrow> bool \<times> jsval obj \<Rightarrow> bool \<times> jsval obj" where
  "assign k v data =
     (if k = ''__proto__'' \<and> fst data then
        (case v of
           JNull \<Rightarrow> (False, snd data)
         | JObj ps \<Rightarrow> (\<not> has_own_proto v, snd data)
         | _ \<Rightarrow> data)
      else (fst data, obj_set k v (snd data)))"

text \<open>The loops that build the result object; their body is
  \<^verbatim>\<open>data[keys[i]] = elements[i]\<close>, skipped for a \<^verbatim>\<open>null\<close> element when
  \<^verbatim>\<open>omitNotFound === true\<close>.\<close>

definition collect_step ::
  "bool \<Rightarrow> jsval \<times> jsval \<Rightarrow> bool \<times> jsval obj \<Rightarrow> bool \<times> jsval obj" where
  "collect_step omitNotFound p data =
     (if omitNotFound \<and> snd p = JNull then data else assign (key_name (fst p)) (snd p) data)"

definition collect :: "bool \<Rightarrow> jsval list \<Rightarrow> jsval list \<Rightarrow> jsval obj" where
  "collect omitNotFound keys elements =
     snd (fold (collect_step omitNotFound) (zip keys elements) (True, []))"

text \<open>The join of \<^verbatim>\<open>pullMulti\<close>: \<^verbatim>\<open>Promise.all(requests).then(...).catch(...)\<close>, as a
  function of the outcomes of the per-key promises, whatever backend settled them.\<close>

definition pullMulti_join :: "bool \<Rightarrow> jsval list \<Rightarrow> outcome list \<Rightarrow> outcome" where
  "pullMulti_join omitNotFound ks rs =
     (case promise_all rs of
        AllResolved elements \<Rightarrow> Resolved (JObj (collect omitNotFound ks elements))
      | AllRejected e \<Rightarrow> Rejected e
      | AllPending \<Rightarrow> Delegated)"

definition pushMulti ::
  "env \<Rightarrow> int \<Rightarrow> jsval \<Rightarrow> bool \<Rightarrow> int option \<Rightarrow> world \<Rightarrow> cacher \<Rightarrow> result" where
  "pushMulti E now elements overwrite ttl W C =
     (if \<not> typeof_object elements \<or> elements = JNull then (Rejected InvalidElements, W, C)
      else
        let ps = for_in elements in
        if list_ex (\<lambda>(k, v). k = []) ps then (Rejected InvalidKeyFound, W, C)
        else if ps = [] then (Resolved JUndefined, W, C)
        else
          (case run_all (\<lambda>(k, v). push E now (JStr k) v overwrite ttl) ps W C of
             (rs, W1, C1) \<Rightarrow>
               (case promise_all rs of
                  AllResolved vs \<Rightarrow> (Resolved JUndefined, W1, C1)
                | AllRejected e \<Rightarrow> (Rejected e, W1, C1)
                | AllPending \<Rightarrow> (Delegated, W1, C1))))"

definition pullMulti ::
  "env \<Rightarrow> int \<Rightarrow> jsval \<Rightarrow> bool \<Rightarrow> bool \<Rightarrow> world \<Rightarrow> cacher \<Rightarrow> result" where
  "pullMulti E now keys quiet omitNotFound W C =
     (case keys of
        JArr ks \<Rightarrow>
          if ks = [] then (Resolved (JObj []), W, C)
          else if list_ex invalid_key ks then (Rejected InvalidKeyFound, W, C)
          else
            (case run_all (\<lambda>k. pull E now k quiet) ks W C of
               (rs, W1, C1) \<Rightarrow> (pullMulti_join omitNotFound ks rs, W1, C1))
      | _ \<Rightarrow> (Rejected InvalidKeys, W, C))"

definition hasMulti :: "env \<Rightarrow> int \<Rightarrow> jsval \<Rightarrow> world \<Rightarrow> cacher \<Rightarrow> result" where
  "hasMulti E now keys W C =
     (case keys of
        JArr ks \<Rightarrow>
          if ks = [] then (Resolved (JObj []), W, C)
          else if list_ex invalid_key ks then (Rejected InvalidKeyFound, W, C)
          else
            (case run_all (\<lambda>k. has E now k) ks W C of
               (rs, W1, C1) \<Rightarrow>
                 (case promise_all rs of
                    AllResolved elements \<Rightarrow> (Resolved (JObj (collect False ks elements)), W1, C1)
                  | AllRejected e \<Rightarrow> (Rejected e, W1, C1)
                  | AllPending \<Rightarrow> (Delegated, W1, C1)))
      | _ \<Rightarrow> (Rejected InvalidKeys, W, C))"

definition hasAll :: "env \<Rightarrow> int \<Rightarrow> jsval \<Rightarrow> world \<Rightarrow> cacher \<Rightarrow> result" where
  "hasAll E now keys W C =
     (case keys of
        JArr ks \<Rightarrow>
          if ks = [] then (Resolved (JBool True), W, C)
          else if list_ex invalid_key ks then (Rejected InvalidKeyFound, W, C)
          else
            (case run_all (\<lambda>k. has E now k) ks W C of
               (rs, W1, C1) \<Rightarrow>
                 (case promise_all rs of
                    AllResolved elements \<Rightarrow>
                      (Resolved (JBool (\<not> list_ex (\<lambda>v. v = JBool False) elements)), W1, C1)
                  | AllRejected e \<Rightarrow> (Rejected e, W1, C1)
                  | AllPending \<Rightarrow> (Delegated, W1, C1)))
      | _ \<Rightarrow> (Rejected InvalidKeys, W, C))"

definition incrementMulti :: "env \<Rightarrow> jsval \<Rightarrow> int option \<Rightarrow> world \<Rightarrow> cacher \<Rightarrow> result" where
  "incrementMulti E keys delta W C =
     (case keys of
        JArr ks \<Rightarrow>
          if ks = [] then (Resolved JUndefined, W, C)
          else if list_ex invalid_key ks then (Rejected InvalidKeyFound, W, C)
          else
            (case run_all (\<lambda>k. increment E k delta) ks W C of
               (rs, W1, C1) \<Rightarrow>
                 (case promise_all rs of
                    AllResolved elements \<Rightarrow> (Resolved JUndefined, W1, C1)
                  | AllRejected e \<Rightarrow> (Rejected e, W1, C1)
                  | AllPending \<Rightarrow> (Delegated, W1, C1)))
      | _ \<Rightarrow> (Rejected InvalidKeys, W, C))"

definition removeMulti :: "env \<Rightarrow> jsval \<Rightarrow> world \<Rightarrow> cacher \<Rightarrow> result" where
  "removeMulti E keys W C =
     (case keys of
        JArr ks \<Rightarrow>
          if ks = [] then (Resolved (JObj []), W, C)
          else if list_ex invalid_key ks then (Rejected InvalidKeyFound, W, C)
          else
            (case run_all (\<lambda>k. remove E k) ks W C of
               (rs, W1, C1) \<Rightarrow>
                 (case promise_all rs of
                    AllResolved elements \<Rightarrow> (Resolved JUndefined, W1, C1)
                  | AllRejected e \<Rightarrow> (Rejected e, W1, C1)
                  | AllPending \<Rightarrow> (Delegated, W1, C1)))
      | _ \<Rightarrow> (Rejected InvalidKeys, W, C))"

subsection \<open>The garbage collectors\<close>

text \<open>
  \<^verbatim>\<open>typeof(expire) === 'object' && expire !== null && expire instanceof Date && expire < now\<close>
\<close>

definition expired :: "int \<Rightarrow> entry \<Rightarrow> bool" where
  "expired now e = (case entry_expire e of None \<Rightarrow> False | Some t \<Rightarrow> t < now)"

text \<open>The body of the inner loop: one key of one namespace. A key deleted on the way
  is not visited again.\<close>

definition sweep_key :: "int \<Rightarrow> string \<Rightarrow> entry obj \<Rightarrow> entry obj" where
  "sweep_key now key ob =
     (case obj_get ob key of
        None \<Rightarrow> ob
      | Some e \<Rightarrow> if expired now e then obj_delete key ob else ob)"

definition sweep_keys :: "int \<Rightarrow> entry obj \<Rightarrow> entry obj" where
  "sweep_keys now ns = fold (sweep_key now) (own_keys ns) ns"

text \<open>The body of the outer loop: one namespace.\<close>

definition sweep_namespace :: "int \<Rightarrow> string \<Rightarrow> storage_t \<Rightarrow> storage_t" where
  "sweep_namespace now n st =
     (case obj_get st n of
        None \<Rightarrow> st
      | Some ns \<Rightarrow> obj_set n (sweep_keys now ns) st)"

definition sweep :: "int \<Rightarrow> storage_t \<Rightarrow> storage_t" where
  "sweep now st = fold (sweep_namespace now) (own_keys st) st"

definition runGlobalGarbageCollector :: "int \<Rightarrow> world \<Rightarrow> world" where
  "runGlobalGarbageCollector now W = W\<lparr>staticStorage := sweep now (staticStorage W)\<rparr>"

definition runGarbageCollector :: "int \<Rightarrow> cacher \<Rightarrow> cacher" where
  "runGarbageCollector now C =
     (case storage C of None \<Rightarrow> C | Some st \<Rightarrow> C\<lparr>storage := Some (sweep now st)\<rparr>)"

definition startGlobalGarbageCollector :: "int \<Rightarrow> world \<Rightarrow> bool \<times> world" where
  "startGlobalGarbageCollector now W =
     (if globalInterval W = None then
        (case setInterval W of
           (h, W1) \<Rightarrow> (True, runGlobalGarbageCollector now (W1\<lparr>globalInterval := Some h\<rparr>)))
      else (False, W))"

definition stopGlobalGarbageCollector :: "world \<Rightarrow> bool \<times> world" where
  "stopGlobalGarbageCollector W =
     (case globalInterval W of
        Some h \<Rightarrow> (True, clearInterval h W)
      | None \<Rightarrow> (False, W))"

definition startGarbageCollector :: "int \<Rightarrow> world \<Rightarrow> cacher \<Rightarrow> bool \<times> world \<times> cacher" where
  "startGarbageCollector now W C =
     (if garbageCollectorInterval C = None then
        (case setInterval W of
           (h, W1) \<Rightarrow>
             (True, W1, runGarbageCollector now (C\<lparr>garbageCollectorInterval := Some h\<rparr>)))
      else (False, W, C))"

text \<open>
  The instance method that stops the instance's collector is also called
  \<^verbatim>\<open>stopGlobalGarbageCollector\<close>; its test reads the field of the instance and then
  the module-level variable.
\<close>

definition stopGlobalGarbageCollector_instance :: "world \<Rightarrow> cacher \<Rightarrow> bool \<times> world \<times> cacher" where
  "stopGlobalGarbageCollector_instance W C =
     (case garbageCollectorInterval C of
        Some h \<Rightarrow> if globalInterval W \<noteq> None then (True, clearInterval h W, C) else (False, W, C)
      | None \<Rightarrow> (False, W, C))"

text \<open>A collector is running while the runtime still holds its interval.\<close>

definition global_running :: "world \<Rightarrow> bool" where
  "global_running W = (case globalInterval W of None \<Rightarrow> False | Some h \<Rightarrow> h \<in> set (timers W))"

text \<open>A lookup through both levels of a storage object.\<close>

definition lookup :: "storage_t \<Rightarrow> string \<Rightarrow> string \<Rightarrow> entry option" where
  "lookup st n k = (case obj_get st n of None \<Rightarrow> None | Some ns \<Rightarrow> obj_get ns k)"

text \<open>The element stored for a derived key in the shared storage, and in the storage of
  an instance (\<open>None\<close> while \<^verbatim>\<open>this.storage\<close> is unset).\<close>

definition shared_lookup :: "world \<Rightarrow> string \<Rightarrow> string \<Rightarrow> entry option" where
  "shared_lookup W n k = lookup (staticStorage W) n k"

definition local_lookup :: "cacher \<Rightarrow> string \<Rightarrow> string \<Rightarrow> entry option" where
  "local_lookup C n k = (case storage C of None \<Rightarrow> None | Some st \<Rightarrow> lookup st n k)"

subsection \<open>Initial state and a concrete environment\<close>

text \<open>The state in which the module is loaded.\<close>

definition world0 :: world where
  "world0 = \<lparr>staticStorage = [], globalInterval = None, timers = [], timer_count = 0,
             cache_storage = []\<rparr>"

text \<open>
  An environment for runs on concrete inputs. The digest is the identity (like MD5 on the
  keys used below, it sends different keys to different names), and the serialiser
  covers \<^verbatim>\<open>null\<close>, the booleans and the non-negative integers. The general
  theorems hold for every environment.
\<close>

definition stringify0 :: "jsval \<Rightarrow> string option" where
  "stringify0 v =
     (case v of
        JNull \<Rightarrow> Some ''null''
      | JBool b \<Rightarrow> Some (if b then ''true'' else ''false'')
      | JNum n \<Rightarrow> if 0 \<le> n then Some (index_name (nat n)) else None
      | _ \<Rightarrow> None)"

definition parse0 :: "string \<Rightarrow> jsval option" where
  "parse0 s =
     (if s = ''null'' then Some JNull
      else if s = ''true'' then Some (JBool True)
      else if s = ''false'' then Some (JBool False)
      else if s = [] then None
      else map_option (\<lambda>n. JNum (int n)) (digits_val 0 s))"

definition env0 :: env where
  "env0 = \<lparr>md5 = (\<lambda>s. s), stringify = stringify0, parse = parse0,
           sql_add = (\<lambda>s d. case digits_val 0 s of
                                 None \<Rightarrow> s
                               | Some n \<Rightarrow> if 0 \<le> int n + d then index_name (nat (int n + d)) else s)\<rparr>"

subsection \<open>Notions of the specification\<close>

text \<open>
  The following definitions are written from the specification's words, to state its
  claims; they are compared with the functions above in the theorems below.

  A batch of keys is a collection of non-empty string keys (possibly empty); for
  \<^verbatim>\<open>pushMulti\<close> the collection is an object and its keys are its property names.
\<close>

definition valid_batch :: "jsval \<Rightarrow> bool" where
  "valid_batch keys =
     (case keys of JArr ks \<Rightarrow> list_all (\<lambda>k. \<not> invalid_key k) ks | _ \<Rightarrow> False)"

definition valid_elements :: "jsval \<Rightarrow> bool" where
  "valid_elements elements =
     (case elements of
        JArr vs \<Rightarrow> True
      | JObj ps \<Rightarrow> list_all (\<lambda>(k, v). k \<noteq> []) (for_in (JObj ps))
      | _ \<Rightarrow> False)"

text \<open>The error an invalid batch is rejected with.\<close>

definition keys_error :: "jsval \<Rightarrow> error" where
  "keys_error keys = (case keys of JArr ks \<Rightarrow> InvalidKeyFound | _ \<Rightarrow> InvalidKeys)"

definition elements_error :: "jsval \<Rightarrow> error" where
  "elements_error elements =
     (case elements of JObj ps \<Rightarrow> InvalidKeyFound | _ \<Rightarrow> InvalidElements)"

text \<open>The own properties of a resolved object: one of them by name
  (\<^verbatim>\<open>Object.getOwnPropertyDescriptor\<close>), and all of them in the order of
  \<^verbatim>\<open>Object.entries\<close>.\<close>

fun own_property :: "jsval \<Rightarrow> string \<Rightarrow> jsval option" where
  "own_property (JObj ps) n = obj_get ps n"
| "own_property _ n = None"

fun own_entries :: "jsval \<Rightarrow> (string \<times> jsval) list" where
  "own_entries (JObj ps) =
     concat (map (\<lambda>k. case obj_get ps k of None \<Rightarrow> [] | Some v \<Rightarrow> [(k, v)]) (own_keys ps))"
| "own_entries _ = []"

text \<open>What a sweep at time \<open>now\<close> leaves of an element, as the code has it: the element
  goes when its expiry is present and before \<open>now\<close>.\<close>

definition kept :: "int \<Rightarrow> entry \<Rightarrow> entry option" where
  "kept now e =
     (case entry_expire e of None \<Rightarrow> Some e | Some t \<Rightarrow> if t < now then None else Some e)"

text \<open>
  The entries \<^verbatim>\<open>pullMulti\<close> is to resolve to: each input key other than
  \<^verbatim>\<open>__proto__\<close> with its pulled value, in input order, without the \<^verbatim>\<open>null\<close> values
  when \<^verbatim>\<open>omitNotFound\<close> is set.
\<close>

definition expected_entries :: "bool \<Rightarrow> jsval list \<Rightarrow> jsval list \<Rightarrow> (string \<times> jsval) list" where
  "expected_entries omitNotFound keys elements =
     filter (\<lambda>(k, v). k \<noteq> ''__proto__'' \<and> \<not> (omitNotFound \<and> v = JNull))
            (zip (map key_name keys) elements)"

text \<open>The names of a list in the order of their first occurrence.\<close>

fun first_occurrences :: "'a list \<Rightarrow> 'a list" where
  "first_occurrences [] = []"
| "first_occurrences (x # xs) = x # removeAll x (first_occurrences xs)"

text \<open>The entries of a list of pairs the building loop runs over, and the body of the
  loop for a name that is assigned like any other.\<close>

definition entries_of :: "bool \<Rightarrow> (jsval \<times> jsval) list \<Rightarrow> (string \<times> jsval) list" where
  "entries_of omitNotFound ps =
     filter (\<lambda>(k, v). \<not> (omitNotFound \<and> v = JNull)) (map (\<lambda>(k, v). (key_name k, v)) ps)"

definition plain_step :: "bool \<Rightarrow> jsval \<times> jsval \<Rightarrow> jsval obj \<Rightarrow> jsval obj" where
  "plain_step omitNotFound p ob =
     (if omitNotFound \<and> snd p = JNull then ob else AList.update (key_name (fst p)) (snd p) ob)"

definition not_proto :: "jsval \<times> jsval \<Rightarrow> bool" where
  "not_proto p = (key_name (fst p) \<noteq> ''__proto__'')"

text \<open>The inputs \<^verbatim>\<open>setStrategy\<close> recognises, with the strategy each selects.\<close>

definition recognised :: "jsval \<Rightarrow> int option" where
  "recognised v =
     (case v of
        JNum n \<Rightarrow> if n \<in> {2, 4, 5, 6, 7} then Some n else None
      | JStr s \<Rightarrow>
          (let l = toLowerCase s in
           if l = ''shared'' then Some 2 else if l = ''redis'' then Some 4
           else if l = ''memcached'' then Some 5
           else if l = ''sqlite'' \<or> l = ''sqlite3'' then Some 6
           else if l = ''file'' then Some 7 else None)
      | _ \<Rightarrow> None)"

section \<open>Properties\<close>

subsection \<open>Unfolding rules for runs on concrete inputs\<close>

lemmas STRATEGY_defs =
  STRATEGY_INTERNAL_def STRATEGY_LOCAL_def STRATEGY_SHARED_def STRATEGY_REDIS_def
  STRATEGY_MEMCACHED_def STRATEGY_SQLITE3_def STRATEGY_FILE_def

lemmas config_defs =
  createKey_def init_def getStrategy_def constructor_def setStrategy_def blank_def
  STRATEGY_defs getDefaultTTL_def namespace_hash_def getNamespace_def prop_name_def
  toLowerCase_def lower_char_def env0_def world0_def Let_def

lemmas object_defs =
  obj_get_def obj_set_def obj_delete_def own_keys_def array_index_def digit_val_def
  index_val_def

lemmas storage_defs =
  storage_push_def storage_pull_def storage_has_def exists_check_def typeof_expire_def
  not_instanceof_Date_def to_number_def not_found_def

lemmas sqlite_defs =
  sqlite_push_def sqlite_pull_def sqlite_has_def sql_select_def where_select_def
  sql_insert_def sql_insert_or_replace_def same_primary_key_def sql_eq_def sql_ge_def
  sql_or_def sql_and_def sql_true_def DATETIME_now_def stringify0_def parse0_def
  index_name_def digit_char_def not_found_def

subsection \<open>The strategy of an instance\<close>

text \<open>
  C10. Whatever \<^verbatim>\<open>setStrategy\<close> is given (a string, a number, \<^verbatim>\<open>null\<close> or any other
  value), \<^verbatim>\<open>getStrategy\<close> afterwards returns one of 1 (local), 2 (shared), 4 (redis),
  5 (memcached), 6 (sqlite3), 7 (file): the strategy the input names when it is
  recognised, and 1 otherwise. Moreover \<^verbatim>\<open>getStrategy\<close> returns one of these six
  numbers whatever the field of the instance holds, so the operations, which dispatch
  on \<^verbatim>\<open>getStrategy()\<close>, never see another value.
\<close>

theorem C10_strategy_in_range:
  "getStrategy (setStrategy v C) \<in> {1, 2, 4, 5, 6, 7}
   \<and> getStrategy (setStrategy v C) = (case recognised v of None \<Rightarrow> 1 | Some n \<Rightarrow> n)
   \<and> getStrategy D \<in> {1, 2, 4, 5, 6, 7}"
proof -
  have range: "getStrategy X \<in> {1, 2, 4, 5, 6, 7}" for X
    unfolding getStrategy_def by (cases "strategy X") auto
  have "getStrategy (setStrategy v C) = (case recognised v of None \<Rightarrow> 1 | Some n \<Rightarrow> n)"
    unfolding getStrategy_def setStrategy_def recognised_def STRATEGY_defs
    by (cases v) (auto simp: Let_def)
  with range show ?thesis by blast
qed

theorem C10_strategy_in_range_witness:
  "getStrategy (setStrategy (JStr ''SQLite'') blank) = 6
   \<and> getStrategy (setStrategy (JNum 3) blank) = 1
   \<and> getStrategy (setStrategy JNull blank) = 1"
  using C10_strategy_in_range [of "JStr ''SQLite''" blank blank]
    C10_strategy_in_range [of "JNum 3" blank blank]
    C10_strategy_in_range [of JNull blank blank]
  by (simp add: recognised_def toLowerCase_def lower_char_def)

subsection \<open>Validation of keys\<close>

text \<open>
  C9. Every single-key operation (\<^verbatim>\<open>push\<close>, \<^verbatim>\<open>pull\<close>, \<^verbatim>\<open>has\<close>, \<^verbatim>\<open>remove\<close>,
  \<^verbatim>\<open>increment\<close>, and \<^verbatim>\<open>decrement\<close> through it) called with a key that is not a
  string or is the empty string is rejected with the invalid-key message, and the
  instance and everything outside it are as before the call: the hash of the namespace
  has not been computed, the storage has not been initialised, no backend was reached.
\<close>

theorem C9_invalid_key_rejected_first:
  assumes "invalid_key key"
  shows "push E now key v overwrite ttl W C = (Rejected InvalidKey, W, C)
       \<and> pull E now key quiet W C = (Rejected EmptyKey, W, C)
       \<and> has E now key W C = (Rejected EmptyKey, W, C)
       \<and> remove E key W C = (Rejected EmptyKey, W, C)
       \<and> increment E key delta W C = (Rejected EmptyKey, W, C)
       \<and> decrement E key delta W C = (Rejected EmptyKey, W, C)"
  using assms by (simp add: push_def pull_def has_def remove_def increment_def decrement_def)

text \<open>On the empty string and on a number, against a fresh instance; a valid key on the
  same instance does derive the key and initialise the storage.\<close>

theorem C9_invalid_key_rejected_first_witness:
  "invalid_key (JStr [])
   \<and> push env0 0 (JStr []) (JNum 1) True None world0 (constructor JUndefined)
       = (Rejected InvalidKey, world0, constructor JUndefined)
   \<and> invalid_key (JNum 5)
   \<and> pull env0 0 (JNum 5) True world0 (constructor JUndefined)
       = (Rejected EmptyKey, world0, constructor JUndefined)
   \<and> increment env0 (JNum 5) None world0 (constructor JUndefined)
       = (Rejected EmptyKey, world0, constructor JUndefined)
   \<and> snd (snd (has env0 0 (JStr ''k'') world0 (constructor JUndefined)))
       = (constructor JUndefined)\<lparr>namaspaceHash := Some ''*'', storage := Some []\<rparr>"
proof -
  have a: "invalid_key (JStr [])" and b: "invalid_key (JNum 5)" by simp_all
  have c: "snd (snd (has env0 0 (JStr ''k'') world0 (constructor JUndefined)))
       = (constructor JUndefined)\<lparr>namaspaceHash := Some ''*'', storage := Some []\<rparr>"
    by (simp add: has_def config_defs storage_defs object_defs)
  show ?thesis
    using a b c
      C9_invalid_key_rejected_first [OF a, of env0 0 "JNum 1" True None world0 "constructor JUndefined"]
      C9_invalid_key_rejected_first [OF b, of env0 0 "JNum 1" True None world0 "constructor JUndefined" True None]
    by simp
qed

lemma not_list_all_valid:
  "\<not> list_all (\<lambda>k. \<not> invalid_key k) ks \<Longrightarrow> list_ex invalid_key ks \<and> ks \<noteq> []"
  by (induction ks) auto

text \<open>
  C5 (amended). Every multi-key operation rejects an input that is not a collection
  (\<^verbatim>\<open>'Invalid keys.'\<close>, \<^verbatim>\<open>'Invalid elements.'\<close>) or that holds a key which is not a
  non-empty string (\<^verbatim>\<open>'Invalid key found.'\<close>), and it does so before any per-key
  operation: the instance and everything outside it are unchanged. An empty collection
  is not rejected: the operation resolves at once (to the empty object, to
  \<^verbatim>\<open>true\<close> for \<^verbatim>\<open>hasAll\<close>, to nothing for \<^verbatim>\<open>pushMulti\<close> and
  \<^verbatim>\<open>incrementMulti\<close>), again with nothing changed.
\<close>

theorem C5_invalid_batch_rejected_first:
  "(\<not> valid_batch keys \<longrightarrow>
       pullMulti E now keys quiet omitNotFound W C = (Rejected (keys_error keys), W, C)
     \<and> hasMulti E now keys W C = (Rejected (keys_error keys), W, C)
     \<and> hasAll E now keys W C = (Rejected (keys_error keys), W, C)
     \<and> removeMulti E keys W C = (Rejected (keys_error keys), W, C)
     \<and> incrementMulti E keys delta W C = (Rejected (keys_error keys), W, C))
   \<and> (\<not> valid_elements elements \<longrightarrow>
       pushMulti E now elements overwrite ttl W C = (Rejected (elements_error elements), W, C))
   \<and> pullMulti E now (JArr []) quiet omitNotFound W C = (Resolved (JObj []), W, C)
   \<and> hasMulti E now (JArr []) W C = (Resolved (JObj []), W, C)
   \<and> hasAll E now (JArr []) W C = (Resolved (JBool True), W, C)
   \<and> removeMulti E (JArr []) W C = (Resolved (JObj []), W, C)
   \<and> incrementMulti E (JArr []) delta W C = (Resolved JUndefined, W, C)
   \<and> pushMulti E now (JObj []) overwrite ttl W C = (Resolved JUndefined, W, C)"
proof -
  have a: "\<not> valid_batch keys \<Longrightarrow>
       pullMulti E now keys quiet omitNotFound W C = (Rejected (keys_error keys), W, C)
     \<and> hasMulti E now keys W C = (Rejected (keys_error keys), W, C)
     \<and> hasAll E now keys W C = (Rejected (keys_error keys), W, C)
     \<and> removeMulti E keys W C = (Rejected (keys_error keys), W, C)
     \<and> incrementMulti E keys delta W C = (Rejected (keys_error keys), W, C)"
    by (cases keys)
       (auto simp: valid_batch_def keys_error_def pullMulti_def hasMulti_def hasAll_def
          removeMulti_def incrementMulti_def dest: not_list_all_valid)
  have b: "\<not> valid_elements elements \<Longrightarrow>
       pushMulti E now elements overwrite ttl W C = (Rejected (elements_error elements), W, C)"
    by (cases elements)
       (auto simp: valid_elements_def elements_error_def pushMulti_def list_all_iff list_ex_iff)
  have c: "pullMulti E now (JArr []) quiet omitNotFound W C = (Resolved (JObj []), W, C)
   \<and> hasMulti E now (JArr []) W C = (Resolved (JObj []), W, C)
   \<and> hasAll E now (JArr []) W C = (Resolved (JBool True), W, C)
   \<and> removeMulti E (JArr []) W C = (Resolved (JObj []), W, C)
   \<and> incrementMulti E (JArr []) delta W C = (Resolved JUndefined, W, C)
   \<and> pushMulti E now (JObj []) overwrite ttl W C = (Resolved JUndefined, W, C)"
    by (simp add: pullMulti_def hasMulti_def hasAll_def removeMulti_def incrementMulti_def
        pushMulti_def own_keys_def)
  from a b c show ?thesis by blast
qed

text \<open>A batch with one invalid key among valid ones, and an object with an empty
  property name.\<close>

theorem C5_invalid_batch_rejected_first_witness:
  "\<not> valid_batch (JArr [JStr ''a'', JStr [], JStr ''b''])
   \<and> removeMulti env0 (JArr [JStr ''a'', JStr [], JStr ''b'']) world0 (constructor JUndefined)
       = (Rejected InvalidKeyFound, world0, constructor JUndefined)
   \<and> \<not> valid_batch (JStr ''a'')
   \<and> hasAll env0 0 (JStr ''a'') world0 (constructor JUndefined)
       = (Rejected InvalidKeys, world0, constructor JUndefined)
   \<and> \<not> valid_elements (JObj [(''a'', JNum 1), ([], JNum 2)])
   \<and> pushMulti env0 0 (JObj [(''a'', JNum 1), ([], JNum 2)]) True None world0
         (constructor JUndefined)
       = (Rejected InvalidKeyFound, world0, constructor JUndefined)"
proof -
  have a: "\<not> valid_batch (JArr [JStr ''a'', JStr [], JStr ''b''])"
    and b: "\<not> valid_batch (JStr ''a'')"
    by (simp_all add: valid_batch_def)
  have c: "\<not> valid_elements (JObj [(''a'', JNum 1), ([], JNum 2)])"
    by (simp add: valid_elements_def object_defs)
  show ?thesis
    using a b c
      C5_invalid_batch_rejected_first [of "JArr [JStr ''a'', JStr [], JStr ''b'']" env0 0 True
        False world0 "constructor JUndefined" None "JObj [(''a'', JNum 1), ([], JNum 2)]" True None]
      C5_invalid_batch_rejected_first [of "JStr ''a''" env0 0 True
        False world0 "constructor JUndefined" None "JObj [(''a'', JNum 1), ([], JNum 2)]" True None]
    by (simp add: keys_error_def elements_error_def)
qed

text \<open>The claim as first stated fails on the empty collection: \<^verbatim>\<open>pullMulti([])\<close>
  resolves to the empty object and \<^verbatim>\<open>hasAll([])\<close> to \<^verbatim>\<open>true\<close>, though the input
  is not a non-empty collection.\<close>

theorem C5_empty_batch_counterexample:
  "fst (pullMulti env0 0 (JArr []) False False world0 (constructor JUndefined))
     = Resolved (JObj [])
   \<and> fst (hasAll env0 0 (JArr []) world0 (constructor JUndefined)) = Resolved (JBool True)"
  by (simp add: pullMulti_def hasAll_def)

subsection \<open>The sweep of a garbage collector\<close>

lemma kept_idem: "Option.bind (kept now y) (kept now) = kept now y"
  by (auto simp: kept_def split: option.splits)

lemma set_own_keys: "set (own_keys ob) = fst ` set ob"
  by (auto simp: own_keys_def Let_def)

lemma map_of_sweep_key:
  "map_of (sweep_key now a ob) k
   = (if k = a then Option.bind (map_of ob a) (kept now) else map_of ob k)"
  by (auto simp: sweep_key_def obj_get_def obj_delete_def kept_def expired_def delete_conv'
      split: option.splits)

text \<open>The inner loop over any list of keys: a visited key holds what \<open>kept\<close> leaves
  of its element, the others are untouched.\<close>

lemma map_of_fold_sweep_key:
  "map_of (fold (sweep_key now) ks ob) k
   = (if k \<in> set ks then Option.bind (map_of ob k) (kept now) else map_of ob k)"
proof (induction ks arbitrary: ob)
  case Nil
  then show ?case by simp
next
  case (Cons a ks)
  show ?case
    by (simp add: Cons.IH map_of_sweep_key kept_idem)
qed

lemma map_of_sweep_keys: "map_of (sweep_keys now ns) k = Option.bind (map_of ns k) (kept now)"
proof (cases "k \<in> fst ` set ns")
  case True
  then show ?thesis by (simp add: sweep_keys_def map_of_fold_sweep_key set_own_keys)
next
  case False
  then have "map_of ns k = None" by (simp add: map_of_eq_None_iff)
  with False show ?thesis by (simp add: sweep_keys_def map_of_fold_sweep_key set_own_keys)
qed

lemma lookup_sweep_namespace:
  "lookup (sweep_namespace now a st) n k
   = (if n = a then Option.bind (lookup st n k) (kept now) else lookup st n k)"
  by (auto simp: lookup_def sweep_namespace_def obj_get_def obj_set_def update_conv'
      map_of_sweep_keys split: option.splits)

lemma lookup_fold_sweep_namespace:
  "lookup (fold (sweep_namespace now) nss st) n k
   = (if n \<in> set nss then Option.bind (lookup st n k) (kept now) else lookup st n k)"
proof (induction nss arbitrary: st)
  case Nil
  then show ?case by simp
next
  case (Cons a nss)
  show ?case
    by (simp add: Cons.IH lookup_sweep_namespace kept_idem)
qed

lemma lookup_sweep: "lookup (sweep now st) n k = Option.bind (lookup st n k) (kept now)"
proof (cases "n \<in> fst ` set st")
  case True
  then show ?thesis by (simp add: sweep_def lookup_fold_sweep_namespace set_own_keys)
next
  case False
  then have "map_of st n = None" by (simp add: map_of_eq_None_iff)
  then have "lookup st n k = None" by (simp add: lookup_def obj_get_def)
  with False show ?thesis by (simp add: sweep_def lookup_fold_sweep_namespace set_own_keys)
qed

text \<open>
  C7 (amended). A sweep of either collector (the process-wide one on the shared
  storage, the one of an instance on its local storage) removes exactly the elements
  whose expiry is present and strictly before the time of the sweep: in every namespace
  such an element is gone afterwards, every element whose expiry is absent, in the
  future or equal to the time of the sweep is still there unchanged, and no element
  appears.
\<close>

theorem C7_sweep_removes_expired:
  "shared_lookup (runGlobalGarbageCollector now W) n k =
     (case shared_lookup W n k of
        None \<Rightarrow> None
      | Some e \<Rightarrow> (case entry_expire e of
                     None \<Rightarrow> Some e
                   | Some t \<Rightarrow> if t < now then None else Some e))
   \<and> local_lookup (runGarbageCollector now C) n k =
     (case local_lookup C n k of
        None \<Rightarrow> None
      | Some e \<Rightarrow> (case entry_expire e of
                     None \<Rightarrow> Some e
                   | Some t \<Rightarrow> if t < now then None else Some e))"
proof -
  have "shared_lookup (runGlobalGarbageCollector now W) n k
        = Option.bind (shared_lookup W n k) (kept now)"
    by (simp add: shared_lookup_def runGlobalGarbageCollector_def lookup_sweep)
  moreover have "local_lookup (runGarbageCollector now C) n k
        = Option.bind (local_lookup C n k) (kept now)"
    by (cases "storage C") (simp_all add: local_lookup_def runGarbageCollector_def lookup_sweep)
  ultimately show ?thesis
    by (simp add: kept_def split: option.splits)
qed

text \<open>Three elements swept at time 1000: one expired at 999, one without expiry, one
  expiring at 2000.\<close>

theorem C7_sweep_removes_expired_witness:
  "(let C0 = blank\<lparr>storage := Some [(''*'',
               [(''j'', \<lparr>entry_value = JNum 1, entry_expire = Some 999\<rparr>),
                (''i'', \<lparr>entry_value = JNum 2, entry_expire = None\<rparr>),
                (''h'', \<lparr>entry_value = JNum 3, entry_expire = Some 2000\<rparr>)])]\<rparr>;
        C1 = runGarbageCollector 1000 C0
    in local_lookup C1 ''*'' ''j'' = None
       \<and> local_lookup C1 ''*'' ''i'' = Some \<lparr>entry_value = JNum 2, entry_expire = None\<rparr>
       \<and> local_lookup C1 ''*'' ''h'' = Some \<lparr>entry_value = JNum 3, entry_expire = Some 2000\<rparr>)"
proof -
  let ?C0 = "blank\<lparr>storage := Some [(''*'',
               [(''j'', \<lparr>entry_value = JNum 1, entry_expire = Some 999\<rparr>),
                (''i'', \<lparr>entry_value = JNum 2, entry_expire = None\<rparr>),
                (''h'', \<lparr>entry_value = JNum 3, entry_expire = Some 2000\<rparr>)])]\<rparr>"
  have "local_lookup ?C0 ''*'' ''j'' = Some \<lparr>entry_value = JNum 1, entry_expire = Some 999\<rparr>"
    and "local_lookup ?C0 ''*'' ''i'' = Some \<lparr>entry_value = JNum 2, entry_expire = None\<rparr>"
    and "local_lookup ?C0 ''*'' ''h'' = Some \<lparr>entry_value = JNum 3, entry_expire = Some 2000\<rparr>"
    by (simp_all add: local_lookup_def lookup_def obj_get_def blank_def)
  then show ?thesis
    using C7_sweep_removes_expired [of 1000 world0 "''*''" "''j''" ?C0]
      C7_sweep_removes_expired [of 1000 world0 "''*''" "''i''" ?C0]
      C7_sweep_removes_expired [of 1000 world0 "''*''" "''h''" ?C0]
    by (simp add: Let_def)
qed

text \<open>The claim as first stated fails at the boundary: an element pushed at time 0 with
  a TTL of one second expires at 1000, and the sweep at time 1000 leaves it, although
  its expiry is present and \<open>\<le> now\<close>.\<close>

theorem C7_boundary_counterexample:
  "(case push env0 0 (JStr ''k'') (JNum 1) True (Some 1) world0 (constructor JUndefined) of
      (r, W1, C1) \<Rightarrow> local_lookup (runGarbageCollector 1000 C1) ''*'' ''k'')
   = Some \<lparr>entry_value = JNum 1, entry_expire = Some 1000\<rparr>"
  by (simp add: push_def config_defs storage_defs object_defs local_lookup_def lookup_def
      runGarbageCollector_def sweep_def sweep_namespace_def sweep_keys_def sweep_key_def
      expired_def)

subsection \<open>The result of \<^verbatim>\<open>pullMulti\<close>\<close>

lemma promise_all_Resolved:
  "promise_all rs = AllResolved vs \<Longrightarrow> rs = map Resolved vs"
proof (induction rs arbitrary: vs)
  case Nil
  then show ?case by simp
next
  case (Cons r rs)
  then show ?case
    by (cases r) (auto split: all_outcome.splits)
qed

lemma promise_all_map_Resolved: "promise_all (map Resolved vs) = AllResolved vs"
  by (induction vs) simp_all

lemma entries_of_Cons:
  "entries_of b (p # ps) =
     (if b \<and> snd p = JNull then [] else [(key_name (fst p), snd p)]) @ entries_of b ps"
  by (cases p) (simp add: entries_of_def)

lemma expected_entries_of:
  "expected_entries b ks vs = entries_of b (filter not_proto (zip ks vs))"
  by (simp add: expected_entries_def entries_of_def not_proto_def zip_map1 filter_map comp_def
      case_prod_beta conj_commute)

text \<open>Apart from the name \<open>__proto__\<close>, the building loop is the plain loop over the
  pairs with another name.\<close>

lemma delete_collect_step:
  "AList.delete ''__proto__'' (snd (collect_step b p data)) =
     (if not_proto p then plain_step b p (AList.delete ''__proto__'' (snd data))
      else AList.delete ''__proto__'' (snd data))"
  by (auto simp: collect_step_def assign_def plain_step_def not_proto_def obj_set_def
      delete_update delete_update_same split: jsval.splits)

lemma delete_fold_collect:
  "AList.delete ''__proto__'' (snd (fold (collect_step b) ps data)) =
     fold (plain_step b) (filter not_proto ps) (AList.delete ''__proto__'' (snd data))"
proof (induction ps arbitrary: data)
  case Nil
  then show ?case by simp
next
  case (Cons p ps)
  show ?case
    by (simp add: Cons.IH delete_collect_step)
qed

lemma map_of_plain_step:
  "map_of (plain_step b p d) n =
     (if b \<and> snd p = JNull then map_of d n
      else if n = key_name (fst p) then Some (snd p) else map_of d n)"
  by (simp add: plain_step_def update_conv')

lemma map_of_fold_plain:
  "map_of (fold (plain_step b) ps d) n =
     (case map_of (rev (entries_of b ps)) n of None \<Rightarrow> map_of d n | Some v \<Rightarrow> Some v)"
proof (induction ps arbitrary: d)
  case Nil
  then show ?case by (simp add: entries_of_def)
next
  case (Cons p ps)
  have "map_of (fold (plain_step b) (p # ps) d) n =
        (case map_of (rev (entries_of b ps)) n of
           None \<Rightarrow> map_of (plain_step b p d) n | Some v \<Rightarrow> Some v)"
    by (simp add: Cons.IH)
  also have "\<dots> = (case map_of (rev (entries_of b (p # ps))) n of
                     None \<Rightarrow> map_of d n | Some v \<Rightarrow> Some v)"
    by (simp add: entries_of_Cons map_of_plain_step map_add_def split: option.splits)
  finally show ?case .
qed

lemma keys_plain_step:
  "map fst (plain_step b p d) =
     (if b \<and> snd p = JNull \<or> key_name (fst p) \<in> set (map fst d) then map fst d
      else map fst d @ [key_name (fst p)])"
  by (simp add: plain_step_def update_keys)

lemma filter_removeAll_absorb: "\<not> P x \<Longrightarrow> filter P (removeAll x xs) = filter P xs"
  by (induction xs) auto

lemma filter_snoc_removeAll:
  "filter (\<lambda>n. n \<notin> set (A @ [x])) xs = filter (\<lambda>n. n \<notin> set A) (removeAll x xs)"
  by (induction xs) auto

lemma keys_fold_plain:
  "map fst (fold (plain_step b) ps d) =
     map fst d @ filter (\<lambda>n. n \<notin> set (map fst d)) (first_occurrences (map fst (entries_of b ps)))"
proof (induction ps arbitrary: d)
  case Nil
  then show ?case by (simp add: entries_of_def)
next
  case (Cons p ps)
  let ?n = "key_name (fst p)"
  let ?F = "first_occurrences (map fst (entries_of b ps))"
  have step: "map fst (fold (plain_step b) (p # ps) d) =
        map fst (plain_step b p d)
        @ filter (\<lambda>n. n \<notin> set (map fst (plain_step b p d))) ?F"
    using Cons.IH[of "plain_step b p d"] by simp
  show ?case
  proof (cases "b \<and> snd p = JNull")
    case True
    then have "map fst (plain_step b p d) = map fst d"
      and "entries_of b (p # ps) = entries_of b ps"
      by (simp_all add: keys_plain_step entries_of_Cons)
    with step show ?thesis by simp
  next
    case False
    then have e: "first_occurrences (map fst (entries_of b (p # ps))) = ?n # removeAll ?n ?F"
      by (cases b) (simp_all add: entries_of_Cons)
    show ?thesis
    proof (cases "?n \<in> set (map fst d)")
      case True
      with False have k: "map fst (plain_step b p d) = map fst d"
        by (cases b) (simp_all add: keys_plain_step)
      have "filter (\<lambda>n. n \<notin> set (map fst d)) (removeAll ?n ?F)
            = filter (\<lambda>n. n \<notin> set (map fst d)) ?F"
        using True by (intro filter_removeAll_absorb) simp
      with True show ?thesis unfolding step k e by simp
    next
      case notin: False
      with False have k: "map fst (plain_step b p d) = map fst d @ [?n]"
        by (cases b) (simp_all add: keys_plain_step)
      have "filter (\<lambda>n. n \<notin> set (map fst d @ [?n])) ?F
            = filter (\<lambda>n. n \<notin> set (map fst d)) (removeAll ?n ?F)"
        by (rule filter_snoc_removeAll)
      with notin show ?thesis unfolding step k e by simp
    qed
  qed
qed


lemma set_first_occurrences: "set (first_occurrences xs) = set xs"
  by (induction xs) auto

lemma own_keys_delete:
  "filter (\<lambda>k. k \<noteq> p) (own_keys ob) = own_keys (AList.delete p ob)"
proof -
  have "map fst (AList.delete p ob) = filter (\<lambda>k. k \<noteq> p) (map fst ob)"
    by (simp add: delete_keys removeAll_filter_not_eq eq_commute)
  then show ?thesis
    by (simp add: own_keys_def Let_def filter_sort conj_commute)
qed

lemma keys_own_entries: "map fst (own_entries (JObj ob)) = own_keys ob"
proof -
  have "k \<in> set ks \<Longrightarrow> k \<in> fst ` set ob" if "set ks \<subseteq> fst ` set ob" for k ks
    using that by auto
  have "set ks \<subseteq> fst ` set ob \<Longrightarrow>
        map fst (concat (map (\<lambda>k. case map_of ob k of None \<Rightarrow> [] | Some v \<Rightarrow> [(k, v)]) ks)) = ks"
    for ks
  proof (induction ks)
    case Nil
    then show ?case by simp
  next
    case (Cons k ks)
    then have "k \<in> fst ` set ob" by simp
    then obtain v where "map_of ob k = Some v"
      by (metis map_of_eq_None_iff not_None_eq)
    with Cons show ?case by simp
  qed
  from this[of "own_keys ob"] show ?thesis
    by (simp add: obj_get_def own_keys_def Let_def subset_iff)
qed

lemma keys_filter_fst:
  "map fst (filter (\<lambda>(k, v). P k) xs) = filter P (map fst xs)"
  by (induction xs) auto

lemma own_entries_own_property:
  "e \<in> set (own_entries r) \<Longrightarrow> own_property r (fst e) = Some (snd e)"
  by (cases r) (auto split: option.splits)

lemma delete_collect:
  "AList.delete ''__proto__'' (collect b ks vs) = fold (plain_step b) (filter not_proto (zip ks vs)) []"
  by (simp add: collect_def delete_fold_collect)

lemma collect_property:
  assumes "n \<noteq> ''__proto__''"
  shows "obj_get (collect b ks vs) n = map_of (rev (expected_entries b ks vs)) n"
proof -
  have "obj_get (collect b ks vs) n = map_of (AList.delete ''__proto__'' (collect b ks vs)) n"
    using assms by (simp add: obj_get_def)
  also have "\<dots> = map_of (rev (expected_entries b ks vs)) n"
    by (simp add: delete_collect map_of_fold_plain expected_entries_of split: option.splits)
  finally show ?thesis .
qed

lemma collect_keys:
  "map fst (filter (\<lambda>(k, v). k \<noteq> ''__proto__'') (own_entries (JObj (collect b ks vs)))) =
     sort_key index_val
       (filter (\<lambda>k. array_index k \<noteq> None)
          (first_occurrences (map fst (expected_entries b ks vs))))
     @ filter (\<lambda>k. array_index k = None)
         (first_occurrences (map fst (expected_entries b ks vs)))"
proof -
  have "map fst (filter (\<lambda>(k, v). k \<noteq> ''__proto__'') (own_entries (JObj (collect b ks vs))))
        = own_keys (AList.delete ''__proto__'' (collect b ks vs))"
    by (simp only: keys_filter_fst keys_own_entries own_keys_delete)
  moreover have "map fst (AList.delete ''__proto__'' (collect b ks vs))
        = first_occurrences (map fst (expected_entries b ks vs))"
    by (simp add: delete_collect keys_fold_plain expected_entries_of)
  ultimately show ?thesis
    by (simp add: own_keys_def Let_def)
qed

lemma valid_batch_no_invalid:
  "valid_batch (JArr ks) \<Longrightarrow> \<not> list_ex invalid_key ks"
  by (simp add: valid_batch_def list_all_iff list_ex_iff)

text \<open>
  C8 (amended). \<^verbatim>\<open>pullMulti\<close> on a batch of valid keys runs one \<^verbatim>\<open>pull\<close> per key, in
  input order, and joins their outcomes; the join resolves only when every per-key pull
  resolved, and then, whatever the values and whatever the order of completion, to an
  object whose own properties map each input key other than \<^verbatim>\<open>__proto__\<close> to the value
  pulled for it (for a repeated key, the value of its last occurrence); with
  \<^verbatim>\<open>omitNotFound = true\<close> the keys whose pull resolved to \<^verbatim>\<open>null\<close> are left out,
  otherwise they are present with the value \<^verbatim>\<open>null\<close>. The entries of the result are
  enumerated as JavaScript enumerates own properties: the keys that are array indices
  (canonical decimal integers up to \<open>2^32 - 2\<close>) first, in ascending numeric order, then
  the other keys in the order of their first occurrence in the input; this is the
  input-key order when no key is an array index. The key \<^verbatim>\<open>__proto__\<close> goes through
  the accessor inherited from \<^verbatim>\<open>Object.prototype\<close>; nothing is stated about it.
\<close>

theorem C8_pullMulti_result:
  "(valid_batch (JArr ks) \<longrightarrow>
      pullMulti E now (JArr ks) quiet omitNotFound W C =
        (case run_all (\<lambda>k. pull E now k quiet) ks W C of
           (rs, W1, C1) \<Rightarrow> (pullMulti_join omitNotFound ks rs, W1, C1)))
   \<and> (pullMulti_join omitNotFound ks rs = Resolved r' \<longrightarrow> (\<exists>vs'. rs = map Resolved vs'))
   \<and> (\<exists>r. pullMulti_join omitNotFound ks (map Resolved vs) = Resolved r
         \<and> (\<forall>n. n \<noteq> ''__proto__'' \<longrightarrow>
                own_property r n = map_of (rev (expected_entries omitNotFound ks vs)) n)
         \<and> (\<forall>e \<in> set (own_entries r). own_property r (fst e) = Some (snd e))
         \<and> map fst (filter (\<lambda>(k, v). k \<noteq> ''__proto__'') (own_entries r)) =
             sort_key index_val
               (filter (\<lambda>k. array_index k \<noteq> None)
                  (first_occurrences (map fst (expected_entries omitNotFound ks vs))))
             @ filter (\<lambda>k. array_index k = None)
                 (first_occurrences (map fst (expected_entries omitNotFound ks vs)))
         \<and> ((\<forall>k \<in> set ks. array_index (key_name k) = None) \<longrightarrow>
              map fst (filter (\<lambda>(k, v). k \<noteq> ''__proto__'') (own_entries r)) =
                first_occurrences (map fst (expected_entries omitNotFound ks vs))))"
proof -
  let ?N = "first_occurrences (map fst (expected_entries omitNotFound ks vs))"
  let ?r = "JObj (collect omitNotFound ks vs)"
  have fan: "pullMulti E now (JArr ks) quiet omitNotFound W C =
        (case run_all (\<lambda>k. pull E now k quiet) ks W C of
           (rs, W1, C1) \<Rightarrow> (pullMulti_join omitNotFound ks rs, W1, C1))"
    if v: "valid_batch (JArr ks)"
  proof (cases "ks = []")
    case True
    then show ?thesis
      by (simp add: pullMulti_def pullMulti_join_def collect_def)
  next
    case False
    with valid_batch_no_invalid[OF v] show ?thesis
      by (simp add: pullMulti_def)
  qed
  have only: "\<exists>vs'. rs = map Resolved vs'" if "pullMulti_join omitNotFound ks rs = Resolved r'"
    using that promise_all_Resolved[of rs]
    by (auto simp: pullMulti_join_def split: all_outcome.splits)
  have res: "pullMulti_join omitNotFound ks (map Resolved vs) = Resolved ?r"
    by (simp add: pullMulti_join_def promise_all_map_Resolved)
  have mapping: "\<forall>n. n \<noteq> ''__proto__'' \<longrightarrow>
                own_property ?r n = map_of (rev (expected_entries omitNotFound ks vs)) n"
    by (simp add: collect_property)
  have ent: "\<forall>e \<in> set (own_entries ?r). own_property ?r (fst e) = Some (snd e)"
    using own_entries_own_property by blast
  have keys: "map fst (filter (\<lambda>(k, v). k \<noteq> ''__proto__'') (own_entries ?r)) =
             sort_key index_val (filter (\<lambda>k. array_index k \<noteq> None) ?N)
             @ filter (\<lambda>k. array_index k = None) ?N"
    by (rule collect_keys)
  have plain: "map fst (filter (\<lambda>(k, v). k \<noteq> ''__proto__'') (own_entries ?r)) = ?N"
    if p: "\<forall>k \<in> set ks. array_index (key_name k) = None"
  proof -
    have "set ?N \<subseteq> key_name ` set ks"
      by (auto simp: set_first_occurrences expected_entries_def dest!: set_zip_leftD)
    with p have "\<forall>k \<in> set ?N. array_index k = None" by auto
    then have "filter (\<lambda>k. array_index k \<noteq> None) ?N = []"
      and "filter (\<lambda>k. array_index k = None) ?N = ?N"
      by (simp_all add: filter_empty_conv)
    with keys show ?thesis by simp
  qed
  from fan only res mapping ent keys plain show ?thesis by blast
qed

text \<open>The run of the specification: with \<^verbatim>\<open>a\<close> and \<^verbatim>\<open>b\<close> stored,
  \<^verbatim>\<open>pullMulti(['a', 'b', 'c'], true, true)\<close> resolves to \<^verbatim>\<open>{a: 1, b: 2}\<close>, and each of
  the three pulls resolved.\<close>

theorem C8_pullMulti_result_witness:
  "(let ks = [JStr ''a'', JStr ''b'', JStr ''c''];
        C1 = (constructor JUndefined)\<lparr>namaspaceHash := Some ''*'', storage := Some [(''*'',
               [(''a'', \<lparr>entry_value = JNum 1, entry_expire = None\<rparr>),
                (''b'', \<lparr>entry_value = JNum 2, entry_expire = None\<rparr>)])]\<rparr>
    in (\<exists>r. fst (pullMulti env0 0 (JArr ks) True True world0 C1) = Resolved r
          \<and> own_property r ''a'' = Some (JNum 1)
          \<and> own_property r ''b'' = Some (JNum 2)
          \<and> own_property r ''c'' = None
          \<and> map fst (filter (\<lambda>(k, v). k \<noteq> ''__proto__'') (own_entries r)) = [''a'', ''b''])
       \<and> (\<exists>vs. fst (run_all (\<lambda>k. pull env0 0 k True) ks world0 C1) = map Resolved vs))"
proof -
  let ?ks = "[JStr ''a'', JStr ''b'', JStr ''c'']"
  let ?vs = "[JNum 1, JNum 2, JNull]"
  let ?rs = "[Resolved (JNum 1), Resolved (JNum 2), Resolved JNull]"
  let ?r' = "JObj [(''a'', JNum 1), (''b'', JNum 2)]"
  let ?C1 = "(constructor JUndefined)\<lparr>namaspaceHash := Some ''*'', storage := Some [(''*'',
               [(''a'', \<lparr>entry_value = JNum 1, entry_expire = None\<rparr>),
                (''b'', \<lparr>entry_value = JNum 2, entry_expire = None\<rparr>)])]\<rparr>"
  have run: "run_all (\<lambda>k. pull env0 0 k True) ?ks world0 ?C1 = (?rs, world0, ?C1)"
    by (simp add: pull_def config_defs storage_defs object_defs)
  have rs: "map Resolved ?vs = ?rs"
    by simp
  have valid: "valid_batch (JArr ?ks)"
    by (simp add: valid_batch_def)
  have plain: "\<forall>k \<in> set ?ks. array_index (key_name k) = None"
    by (simp add: object_defs)
  have expected: "expected_entries True ?ks ?vs = [(''a'', JNum 1), (''b'', JNum 2)]"
    by (simp add: expected_entries_def)
  have joined: "pullMulti_join True ?ks ?rs = Resolved ?r'"
    by (simp add: pullMulti_join_def collect_def collect_step_def assign_def object_defs)
  note inst = C8_pullMulti_result [of ?ks env0 0 True True world0 ?C1 ?rs ?r' ?vs]
  note fan = inst [THEN conjunct1, THEN mp, OF valid]
  note only = inst [THEN conjunct2, THEN conjunct1, THEN mp, OF joined]
  from inst [THEN conjunct2, THEN conjunct2]
  obtain r where all: "pullMulti_join True ?ks (map Resolved ?vs) = Resolved r
         \<and> (\<forall>n. n \<noteq> ''__proto__'' \<longrightarrow>
                own_property r n = map_of (rev (expected_entries True ?ks ?vs)) n)
         \<and> (\<forall>e \<in> set (own_entries r). own_property r (fst e) = Some (snd e))
         \<and> map fst (filter (\<lambda>(k, v). k \<noteq> ''__proto__'') (own_entries r)) =
             sort_key index_val
               (filter (\<lambda>k. array_index k \<noteq> None)
                  (first_occurrences (map fst (expected_entries True ?ks ?vs))))
             @ filter (\<lambda>k. array_index k = None)
                 (first_occurrences (map fst (expected_entries True ?ks ?vs)))
         \<and> ((\<forall>k \<in> set ?ks. array_index (key_name k) = None) \<longrightarrow>
              map fst (filter (\<lambda>(k, v). k \<noteq> ''__proto__'') (own_entries r)) =
                first_occurrences (map fst (expected_entries True ?ks ?vs)))"
    by (rule exE)
  note r = all [THEN conjunct1]
  note m = all [THEN conjunct2, THEN conjunct1]
  note o = all [THEN conjunct2, THEN conjunct2, THEN conjunct2, THEN conjunct2, THEN mp, OF plain]
  have "fst (pullMulti env0 0 (JArr ?ks) True True world0 ?C1) = Resolved r"
    unfolding fan run using r unfolding rs by simp
  moreover have "own_property r ''a'' = Some (JNum 1)" "own_property r ''b'' = Some (JNum 2)"
    "own_property r ''c'' = None"
    using m by (simp_all add: expected)
  moreover have "map fst (filter (\<lambda>(k, v). k \<noteq> ''__proto__'') (own_entries r)) = [''a'', ''b'']"
    using o by (simp add: expected)
  ultimately have result: "fst (pullMulti env0 0 (JArr ?ks) True True world0 ?C1) = Resolved r
         \<and> own_property r ''a'' = Some (JNum 1)
         \<and> own_property r ''b'' = Some (JNum 2)
         \<and> own_property r ''c'' = None
         \<and> map fst (filter (\<lambda>(k, v). k \<noteq> ''__proto__'') (own_entries r)) = [''a'', ''b'']"
    by (intro conjI)
  have first: "\<exists>r. fst (pullMulti env0 0 (JArr ?ks) True True world0 ?C1) = Resolved r
         \<and> own_property r ''a'' = Some (JNum 1)
         \<and> own_property r ''b'' = Some (JNum 2)
         \<and> own_property r ''c'' = None
         \<and> map fst (filter (\<lambda>(k, v). k \<noteq> ''__proto__'') (own_entries r)) = [''a'', ''b'']"
  proof (rule exI)
    show "fst (pullMulti env0 0 (JArr ?ks) True True world0 ?C1) = Resolved r
         \<and> own_property r ''a'' = Some (JNum 1)
         \<and> own_property r ''b'' = Some (JNum 2)
         \<and> own_property r ''c'' = None
         \<and> map fst (filter (\<lambda>(k, v). k \<noteq> ''__proto__'') (own_entries r)) = [''a'', ''b'']"
      by (fact result)
  qed
  have second: "\<exists>vs. fst (run_all (\<lambda>k. pull env0 0 k True) ?ks world0 ?C1) = map Resolved vs"
    unfolding run fst_conv by (rule only)
  show ?thesis
    unfolding Let_def using first second by (rule conjI)
qed

text \<open>The claim as first stated fails on an integer-like key and on the key
  \<^verbatim>\<open>__proto__\<close>: after \<^verbatim>\<open>pushMulti({b: 1, '1': 2})\<close>, \<^verbatim>\<open>pullMulti(['b', '1'], true)\<close>
  resolves to an object whose entries come as \<^verbatim>\<open>'1'\<close>, then \<^verbatim>\<open>'b'\<close>, not in
  input-key order; and after \<^verbatim>\<open>pushMulti({a: 2})\<close>, \<^verbatim>\<open>pullMulti(['__proto__', 'a'], true)\<close>
  resolves to an object with the single entry \<^verbatim>\<open>a\<close>, though the pull of
  \<^verbatim>\<open>__proto__\<close> resolved to \<^verbatim>\<open>null\<close> and \<^verbatim>\<open>omitNotFound\<close> is not set.\<close>

theorem C8_key_order_counterexample:
  "(case pushMulti env0 1000 (JObj [(''b'', JNum 1), (''1'', JNum 2)]) True None world0
          (constructor JUndefined) of
      (r1, W1, C1) \<Rightarrow>
        (case pullMulti env0 2000 (JArr [JStr ''b'', JStr ''1'']) True False W1 C1 of
           (Resolved r, W2, C2) \<Rightarrow> own_entries r
         | _ \<Rightarrow> []))
   = [(''1'', JNum 2), (''b'', JNum 1)]
   \<and> (case pushMulti env0 1000 (JObj [(''a'', JNum 2)]) True None world0
          (constructor JUndefined) of
      (r1, W1, C1) \<Rightarrow>
        (case pullMulti env0 2000 (JArr [JStr ''__proto__'', JStr ''a'']) True False W1 C1 of
           (Resolved r, W2, C2) \<Rightarrow> own_entries r
         | _ \<Rightarrow> [(''unresolved'', JNull)]))
   = [(''a'', JNum 2)]"
  by (simp add: pushMulti_def pullMulti_def pullMulti_join_def push_def pull_def config_defs
      storage_defs object_defs collect_def collect_step_def assign_def)

subsection \<open>Overwriting and expiry on the local and shared storage\<close>

text \<open>When \<^verbatim>\<open>push\<close> without overwrite reports an existing key: exactly when an
  element is stored under the key and its expiry, read as a number (\<^verbatim>\<open>null\<close> is 0),
  is not before the current time.\<close>

lemma storage_push_KeyExists_iff:
  "storage_push now key v overwrite expire st = Inl KeyExists \<longleftrightarrow>
     \<not> overwrite \<and>
     (\<exists>old. lookup st (key_namespace key) (prop_name (key_key key)) = Some old
            \<and> to_number (entry_expire old) \<ge> now)"
  by (auto simp: storage_push_def lookup_def exists_check_def typeof_expire_def
      not_instanceof_Date_def Let_def split: option.splits)

text \<open>\<^verbatim>\<open>pull\<close> and \<^verbatim>\<open>has\<close> on these storages never look at the clock, and never
  change the storage.\<close>

lemma storage_pull_ignores_time:
  "storage_pull now key quiet st = storage_pull now' key quiet st
   \<and> snd (storage_pull now key quiet st) = st
   \<and> snd (storage_has key st) = st"
  by (simp add: storage_pull_def storage_has_def typeof_expire_def not_instanceof_Date_def
      Let_def split: option.splits)

text \<open>
  C1. For a key holding a live element, \<^verbatim>\<open>push(k, v2, overwrite=false)\<close> is to fail
  with the key-exists error and leave the stored value. The code does so only when the
  element has an expiry date; an element stored without TTL is overwritten. The run:
  \<^verbatim>\<open>push('k', 1, false)\<close>, \<^verbatim>\<open>push('k', 2, false)\<close>, \<^verbatim>\<open>pull('k')\<close> with no default
  TTL, on the local and on the shared strategy: the second push resolves and the pull
  gives 2.
\<close>

theorem C1_push_without_overwrite_replaces:
  "(case push env0 1000 (JStr ''k'') (JNum 1) False None world0 (constructor (JStr ''local'')) of
      (r1, W1, C1) \<Rightarrow>
        (case push env0 2000 (JStr ''k'') (JNum 2) False None W1 C1 of
           (r2, W2, C2) \<Rightarrow>
             (case pull env0 3000 (JStr ''k'') False W2 C2 of
                (r3, W3, C3) \<Rightarrow> (r1, r2, r3))))
   = (Resolved JUndefined, Resolved JUndefined, Resolved (JNum 2))
   \<and> (case push env0 1000 (JStr ''k'') (JNum 1) False None world0 (constructor (JStr ''shared'')) of
      (r1, W1, C1) \<Rightarrow>
        (case push env0 2000 (JStr ''k'') (JNum 2) False None W1 C1 of
           (r2, W2, C2) \<Rightarrow>
             (case pull env0 3000 (JStr ''k'') False W2 C2 of
                (r3, W3, C3) \<Rightarrow> (r1, r2, r3))))
   = (Resolved JUndefined, Resolved JUndefined, Resolved (JNum 2))"
  by (simp add: push_def pull_def config_defs storage_defs object_defs)

text \<open>
  C2. An element whose expiry has passed and that no collector has removed yet is to be
  absent for \<^verbatim>\<open>pull\<close>. The code returns it. The run: \<^verbatim>\<open>push('k', 'v', true, 1)\<close> at
  time 1000 (expiry 2000), then \<^verbatim>\<open>pull('k')\<close> at time 5000, on the local and on the
  shared strategy: the pull resolves to the stale value, and the element stays stored.
\<close>

theorem C2_pull_returns_expired:
  "(case push env0 1000 (JStr ''k'') (JStr ''v'') True (Some 1) world0 (constructor (JStr ''local'')) of
      (r1, W1, C1) \<Rightarrow>
        (case pull env0 5000 (JStr ''k'') False W1 C1 of
           (r2, W2, C2) \<Rightarrow> (r2, local_lookup C2 ''*'' ''k'')))
   = (Resolved (JStr ''v''), Some \<lparr>entry_value = JStr ''v'', entry_expire = Some 2000\<rparr>)
   \<and> (case push env0 1000 (JStr ''k'') (JStr ''v'') True (Some 1) world0 (constructor (JStr ''shared'')) of
      (r1, W1, C1) \<Rightarrow>
        (case pull env0 5000 (JStr ''k'') True W1 C1 of
           (r2, W2, C2) \<Rightarrow> (r2, shared_lookup W2 ''*'' ''k'')))
   = (Resolved (JStr ''v''), Some \<lparr>entry_value = JStr ''v'', entry_expire = Some 2000\<rparr>)"
  by (simp add: push_def pull_def config_defs storage_defs object_defs local_lookup_def
      shared_lookup_def lookup_def)

subsection \<open>Rows without expiry in the SQLite table\<close>

text \<open>The clause \<^verbatim>\<open>expire = NULL OR expire >= DATETIME("now")\<close> is never true of a row
  whose \<^verbatim>\<open>expire\<close> is \<^verbatim>\<open>NULL\<close>, and \<^verbatim>\<open>SELECT\<close> never returns such a row.\<close>

lemma where_select_NULL:
  "\<not> sql_true (where_select now key (r\<lparr>row_expire := None\<rparr>))"
  by (simp add: where_select_def sql_true_def sql_and_def sql_or_def sql_eq_def sql_ge_def
      split: option.splits)

lemma sql_select_expire:
  "sql_select now key tbl = Some r \<Longrightarrow> \<exists>t. row_expire r = Some t \<and> t \<ge> now div 1000"
proof -
  assume "sql_select now key tbl = Some r"
  then have "sql_true (where_select now key r)"
    by (auto simp: sql_select_def find_Some_iff)
  then show ?thesis
    by (cases "row_expire r")
       (auto simp: where_select_def sql_true_def sql_and_def sql_or_def sql_eq_def sql_ge_def
          DATETIME_now_def split: option.splits if_splits)
qed

text \<open>
  C3. On the SQLite3 strategy \<^verbatim>\<open>pull\<close> and \<^verbatim>\<open>has\<close> are to find a row whose
  \<^verbatim>\<open>expire\<close> is \<^verbatim>\<open>NULL\<close> or not before now. The code finds only rows with a
  non-\<^verbatim>\<open>NULL\<close> expiry. The run: \<^verbatim>\<open>push('a', 1, true)\<close> with no TTL stores a row
  with \<^verbatim>\<open>expire\<close> \<^verbatim>\<open>NULL\<close>; then \<^verbatim>\<open>has('a')\<close> resolves to \<^verbatim>\<open>false\<close> and
  \<^verbatim>\<open>pull('a', true)\<close> to \<^verbatim>\<open>null\<close>.
\<close>

theorem C3_sqlite_row_without_expiry_not_found:
  "(case push env0 1000 (JStr ''a'') (JNum 1) True None world0
          ((constructor (JStr ''sqlite3''))\<lparr>sqliteConnection := True\<rparr>) of
      (r1, W1, C1) \<Rightarrow>
        (r1, map row_expire (cache_storage W1),
         fst (has env0 2000 (JStr ''a'') W1 C1),
         fst (pull env0 2000 (JStr ''a'') True W1 C1)))
   = (Resolved JUndefined, [None], Resolved (JBool False), Resolved JNull)"
  by (simp add: push_def pull_def has_def config_defs sqlite_defs)

subsection \<open>Round trip on the local and the shared storage\<close>

lemma createKey_eq:
  "createKey E key C = (derive E key (ns_hash E C), C\<lparr>namaspaceHash := Some (ns_hash E C)\<rparr>)"
proof (cases "namaspaceHash C")
  case None
  then show ?thesis
    by (simp add: createKey_def derive_def ns_hash_def Let_def split: jsval.splits list.splits)
next
  case (Some h)
  then show ?thesis
    by (cases h)
       (simp_all add: createKey_def derive_def ns_hash_def Let_def split: jsval.splits list.splits)
qed

lemma ns_hash_again:
  "ns_hash E (C\<lparr>namaspaceHash := Some (ns_hash E C)\<rparr>) = ns_hash E C"
  "ns_hash E (C\<lparr>namaspaceHash := Some (ns_hash E C), storage := s\<rparr>) = ns_hash E C"
  by (cases "ns_hash E C";
      auto simp: ns_hash_def getNamespace_def split: option.splits list.splits)+

lemma getStrategy_update:
  "getStrategy (C\<lparr>storage := s\<rparr>) = getStrategy C"
  "getStrategy (C\<lparr>namaspaceHash := h\<rparr>) = getStrategy C"
  by (simp_all add: getStrategy_def)

lemma same_hash: "namaspaceHash C = Some h \<Longrightarrow> C\<lparr>namaspaceHash := Some h\<rparr> = C"
  by simp

lemma storage_round_trip:
  assumes "storage_push now k v True expire st = Inr st'" "v \<noteq> JUndefined"
  shows "storage_pull now' k quiet st' = (Resolved v, st')"
  using assms
  by (auto simp: storage_push_def storage_pull_def obj_get_def obj_set_def update_conv'
      typeof_expire_def not_instanceof_Date_def Let_def split: option.splits)

lemma storage_push_overwrite:
  "\<exists>st'. storage_push now k v True expire st = Inr st'"
  by (simp add: storage_push_def Let_def split: option.splits)

lemma round_trip_shared:
  assumes key: "\<not> invalid_key key" and v: "v \<noteq> JUndefined"
    and s: "getStrategy C = STRATEGY_SHARED"
    and p: "push E now key v True ttl W C = (r, W1, C1)"
  shows "r = Resolved JUndefined \<and> pull E now' key quiet W1 C1 = (Resolved v, W1, C1)"
proof -
  let ?k = "derive E key (ns_hash E C)"
  let ?C = "C\<lparr>namaspaceHash := Some (ns_hash E C)\<rparr>"
  let ?x = "if (case ttl of Some t \<Rightarrow> t | None \<Rightarrow> getDefaultTTL C) \<le> 0 then None
            else Some (now + (case ttl of Some t \<Rightarrow> t | None \<Rightarrow> getDefaultTTL C) * 1000)"
  obtain st' where st': "storage_push now ?k v True ?x (staticStorage W) = Inr st'"
    using storage_push_overwrite by blast
  have i: "init ?C = Some ?C" using s by (simp add: init_def getStrategy_update)
  have "push E now key v True ttl W C = (Resolved JUndefined, W\<lparr>staticStorage := st'\<rparr>, ?C)"
    using key s st' i by (simp add: push_def createKey_eq Let_def getStrategy_update)
  with p have r: "r = Resolved JUndefined" and W1: "staticStorage W1 = st'" and C1: "C1 = ?C"
    by auto
  have h: "ns_hash E C1 = ns_hash E C" and s1: "getStrategy C1 = STRATEGY_SHARED"
    and n: "namaspaceHash C1 = Some (ns_hash E C)"
    using s by (simp_all add: C1 ns_hash_again getStrategy_update)
  have ck: "createKey E key C1 = (?k, C1)"
    by (simp add: createKey_eq h same_hash[OF n])
  have i1: "init C1 = Some C1" using s1 by (simp add: init_def)
  have "pull E now' key quiet W1 C1 = (Resolved v, W1, C1)"
    using key s1 i1 ck storage_round_trip[OF st' v] W1
    by (simp add: pull_def Let_def)
  with r show ?thesis by simp
qed

lemma round_trip_local:
  assumes key: "\<not> invalid_key key" and v: "v \<noteq> JUndefined"
    and s: "getStrategy C = STRATEGY_LOCAL"
    and p: "push E now key v True ttl W C = (r, W1, C1)"
  shows "r = Resolved JUndefined \<and> pull E now' key quiet W1 C1 = (Resolved v, W1, C1)"
proof -
  let ?k = "derive E key (ns_hash E C)"
  let ?C = "C\<lparr>namaspaceHash := Some (ns_hash E C)\<rparr>"
  let ?x = "if (case ttl of Some t \<Rightarrow> t | None \<Rightarrow> getDefaultTTL C) \<le> 0 then None
            else Some (now + (case ttl of Some t \<Rightarrow> t | None \<Rightarrow> getDefaultTTL C) * 1000)"
  let ?st = "case storage C of None \<Rightarrow> [] | Some st \<Rightarrow> st"
  obtain st' where st': "storage_push now ?k v True ?x ?st = Inr st'"
    using storage_push_overwrite by blast
  have i: "init ?C = Some (?C\<lparr>storage := Some ?st\<rparr>)"
    using s by (cases "storage C") (simp_all add: init_def STRATEGY_defs getStrategy_update)
  have "push E now key v True ttl W C = (Resolved JUndefined, W, ?C\<lparr>storage := Some st'\<rparr>)"
    using key s st' i by (simp add: push_def createKey_eq Let_def STRATEGY_defs getStrategy_update)
  with p have r: "r = Resolved JUndefined" and W1: "W1 = W" and C1: "C1 = ?C\<lparr>storage := Some st'\<rparr>"
    by simp_all
  have h: "ns_hash E C1 = ns_hash E C" and s1: "getStrategy C1 = STRATEGY_LOCAL"
    and n: "namaspaceHash C1 = Some (ns_hash E C)" and st1: "storage C1 = Some st'"
    using s by (simp_all add: C1 ns_hash_again getStrategy_update)
  have ck: "createKey E key C1 = (?k, C1)"
    by (simp add: createKey_eq h same_hash[OF n])
  have i1: "init C1 = Some C1"
    using s1 st1 by (simp add: init_def STRATEGY_defs)
  have upd: "C1\<lparr>storage := Some st'\<rparr> = C1" using st1 by simp
  have "pull E now' key quiet W1 C1 = (Resolved v, W1, C1)"
    using key s1 i1 ck st1 upd storage_round_trip[OF st' v]
    by (simp add: pull_def Let_def STRATEGY_defs)
  with r show ?thesis by simp
qed

text \<open>For every environment, every valid key and every value but \<^verbatim>\<open>undefined\<close>: on the
  local and on the shared strategy, \<^verbatim>\<open>push\<close> with overwrite resolves, and a \<^verbatim>\<open>pull\<close>
  of the key at any later time resolves to the value and changes nothing.\<close>

lemma round_trip_local_shared:
  assumes "\<not> invalid_key key" "v \<noteq> JUndefined"
    and "getStrategy C = STRATEGY_LOCAL \<or> getStrategy C = STRATEGY_SHARED"
    and "push E now key v True ttl W C = (r, W1, C1)"
  shows "r = Resolved JUndefined \<and> pull E now' key quiet W1 C1 = (Resolved v, W1, C1)"
proof (cases "getStrategy C = STRATEGY_LOCAL")
  case True
  from assms(1,2) True assms(4) show ?thesis by (rule round_trip_local)
next
  case False
  with assms(3) have "getStrategy C = STRATEGY_SHARED" by simp
  with assms(1,2) show ?thesis using assms(4) by (rule round_trip_shared)
qed

text \<open>
  C4. \<^verbatim>\<open>push(k, v, true)\<close> followed by \<^verbatim>\<open>pull(k)\<close> is to resolve to \<^verbatim>\<open>v\<close> on every
  backend. On the SQLite3 strategy, without TTL, the pull is rejected with
  \<^verbatim>\<open>'No such element found.'\<close> (the clause of C3); the same run on the local strategy
  resolves to the value.
\<close>

theorem C4_sqlite_round_trip_fails:
  "(case push env0 1000 (JStr ''a'') (JNum 1) True None world0
          ((constructor (JStr ''sqlite3''))\<lparr>sqliteConnection := True\<rparr>) of
      (r1, W1, C1) \<Rightarrow> (r1, fst (pull env0 1000 (JStr ''a'') False W1 C1)))
   = (Resolved JUndefined, Rejected NoSuchElement)
   \<and> (case push env0 1000 (JStr ''a'') (JNum 1) True None world0 (constructor (JStr ''local'')) of
      (r1, W1, C1) \<Rightarrow> (r1, fst (pull env0 1000 (JStr ''a'') False W1 C1)))
   = (Resolved JUndefined, Resolved (JNum 1))"
  by (simp add: push_def pull_def config_defs sqlite_defs storage_defs object_defs)

subsection \<open>Starting and stopping the collectors\<close>

text \<open>
  C6. \<^verbatim>\<open>start(); stop(); start()\<close> is to start the collector again and return
  \<^verbatim>\<open>true\<close>. In the code \<^verbatim>\<open>stopGlobalGarbageCollector\<close> clears the interval and
  leaves the variable set: the second start returns \<^verbatim>\<open>false\<close> and no collector
  runs, and a second stop returns \<^verbatim>\<open>true\<close>. The method that stops the collector of
  an instance tests the module-level variable: with no process-wide collector started
  it returns \<^verbatim>\<open>false\<close> and the interval of the instance stays alive.
\<close>

theorem C6_restart_after_stop_fails:
  "(case startGlobalGarbageCollector 0 world0 of
      (r1, W1) \<Rightarrow>
        (case stopGlobalGarbageCollector W1 of
           (r2, W2) \<Rightarrow>
             (case startGlobalGarbageCollector 0 W2 of
                (r3, W3) \<Rightarrow>
                  (case stopGlobalGarbageCollector W3 of
                     (r4, W4) \<Rightarrow>
                       (r1, global_running W1, r2, global_running W2, r3, global_running W3, r4)))))
   = (True, True, True, False, False, False, True)
   \<and> (case startGarbageCollector 0 world0 (constructor JUndefined) of
      (r1, W1, C1) \<Rightarrow>
        (case stopGlobalGarbageCollector_instance W1 C1 of
           (r2, W2, C2) \<Rightarrow> (r1, r2, timers W2, garbageCollectorInterval C2)))
   = (True, False, [0], Some 0)"
  by (simp add: startGlobalGarbageCollector_def stopGlobalGarbageCollector_def
      startGarbageCollector_def stopGlobalGarbageCollector_instance_def setInterval_def
      clearInterval_def runGlobalGarbageCollector_def runGarbageCollector_def sweep_def
      global_running_def own_keys_def world0_def constructor_def setStrategy_def blank_def
      Let_def)

end
